theory Spec2Isabelle
  imports Complex_Main "HOL-Library.AList" "HOL-Library.Multiset"
begin

section \<open>JavaScript values as the route handlers see them\<close>

text \<open>
  The handlers of \<^verbatim>\<open>routes/listings.js\<close> and \<^verbatim>\<open>routes/admin.js\<close> work on
  untyped request bodies and on rows handed back by the database driver, and they lean on
  JavaScript's coercions (\<^verbatim>\<open>Number(x) || 0\<close>, \<^verbatim>\<open>!rating\<close>, \<^verbatim>\<open>parseInt(s) || 1\<close>,
  \<^verbatim>\<open>(v.color || '').trim()\<close>). The values are therefore modelled as a datatype of
  JavaScript values with the coercions written out.

  A number is \<^verbatim>\<open>NaN\<close>, an infinity, or the rational a finite double denotes; the sign
  of zero is not modelled. \<^verbatim>\<open>Number\<close> applied to a string rounds the literal to the
  nearest double, as ECMAScript does (\<open>round_double\<close> below). A request body is the
  value \<^verbatim>\<open>JSON.parse\<close> made of the request text, so the numbers in it are doubles
  already: the text \<^verbatim>\<open>1e-324\<close> is the number 0 in the body. The handlers do no
  arithmetic on fractions. The integers of \<^verbatim>\<open>parseInt\<close> are kept exact, also beyond
  \<open>2\<^sup>5\<^sup>3\<close>. Strings are byte strings, so the
  white space that \<^verbatim>\<open>trim\<close> strips is the ASCII part of the ECMAScript definition.
  An object is its list of own properties in insertion order.
\<close>

datatype jsnum = NaN | PosInf | NegInf | Fin rat

datatype jsval =
    JUndefined
  | JNull
  | JBool bool
  | JNum jsnum
  | JStr string
  | JArr "jsval list"
  | JObj "(string \<times> jsval) list"

type_synonym jsobj = "(string \<times> jsval) list"

text \<open>\<^verbatim>\<open>ToBoolean\<close>: what \<^verbatim>\<open>!x\<close>, \<^verbatim>\<open>x || y\<close>, \<^verbatim>\<open>x && y\<close> and \<^verbatim>\<open>if (x)\<close> test.\<close>

fun truthy :: "jsval \<Rightarrow> bool" where
  "truthy JUndefined = False"
| "truthy JNull = False"
| "truthy (JBool b) = b"
| "truthy (JNum n) = (n \<noteq> NaN \<and> n \<noteq> Fin 0)"
| "truthy (JStr s) = (s \<noteq> [])"
| "truthy (JArr xs) = True"
| "truthy (JObj ps) = True"

definition js_or :: "jsval \<Rightarrow> jsval \<Rightarrow> jsval" where
  "js_or a b = (if truthy a then a else b)"

text \<open>Property read \<^verbatim>\<open>o.k\<close> on an object held as a property list: absent is \<^verbatim>\<open>undefined\<close>.\<close>

definition get :: "jsobj \<Rightarrow> string \<Rightarrow> jsval" where
  "get ps k = (case map_of ps k of Some v \<Rightarrow> v | None \<Rightarrow> JUndefined)"

definition is_ws :: "char \<Rightarrow> bool" where
  "is_ws c = (c \<in> set [CHR '' '', CHR 0x09, CHR 0x0A, CHR 0x0B, CHR 0x0C, CHR 0x0D])"

definition trim :: "string \<Rightarrow> string" where
  "trim s = rev (dropWhile is_ws (rev (dropWhile is_ws s)))"

subsection \<open>\<^verbatim>\<open>Number(x)\<close> and \<^verbatim>\<open>parseInt(s)\<close>\<close>

definition digit_val :: "char \<Rightarrow> nat" where
  "digit_val c =
     (let n = (of_char c :: nat) in
      if 48 \<le> n \<and> n \<le> 57 then n - 48
      else if 97 \<le> n \<and> n \<le> 102 then n - 87
      else if 65 \<le> n \<and> n \<le> 70 then n - 55
      else 99)"

definition is_digit :: "nat \<Rightarrow> char \<Rightarrow> bool" where
  "is_digit radix c = (digit_val c < radix)"

definition digits_val :: "nat \<Rightarrow> string \<Rightarrow> nat" where
  "digits_val radix ds = foldl (\<lambda>acc c. acc * radix + digit_val c) 0 ds"

subsubsection \<open>Rounding to a double\<close>

text \<open>
  The Number value of a rational \<open>a / b\<close>: the nearest number \<open>m * 2\<^sup>t\<close> with
  \<open>m < 2\<^sup>5\<^sup>3\<close> and \<open>t \<ge> -1074\<close>, a tie going to the even \<open>m\<close>, and an infinity from
  \<open>2\<^sup>1\<^sup>0\<^sup>2\<^sup>4\<close> on. All of it is integer arithmetic: \<open>bits\<close> counts binary
  digits, \<open>ipow\<close> is the power by squaring, \<open>shl n k\<close> is \<open>n * 2\<^sup>k\<close> for \<open>k \<ge> 0\<close> and
  \<open>n\<close> otherwise, and \<open>floor_log2 a b\<close> is the exponent of the binade of \<open>a / b\<close>.
\<close>

fun num_neg :: "jsnum \<Rightarrow> jsnum" where
  "num_neg NaN = NaN"
| "num_neg PosInf = NegInf"
| "num_neg NegInf = PosInf"
| "num_neg (Fin q) = Fin (- q)"

function bits :: "int \<Rightarrow> int" where
  "bits n = (if n \<le> 0 then 0 else 1 + bits (n div 2))"
  by pat_completeness auto
termination
  by (relation "measure nat") auto

declare bits.simps [simp del]

function ipow :: "int \<Rightarrow> int \<Rightarrow> int" where
  "ipow b k =
     (if k \<le> 0 then 1
      else if even k then (let h = ipow b (k div 2) in h * h)
      else b * ipow b (k - 1))"
  by pat_completeness auto
termination
  by (relation "measure (\<lambda>(b, k). nat k)") auto

declare ipow.simps [simp del]

definition shl :: "int \<Rightarrow> int \<Rightarrow> int" where
  "shl n k = n * ipow 2 k"

definition floor_log2 :: "int \<Rightarrow> int \<Rightarrow> int" where
  "floor_log2 a b =
     (let k = bits a - bits b
      in if shl b k \<le> shl a (- k) then k else k - 1)"

definition round_half_even :: "int \<Rightarrow> int \<Rightarrow> int" where
  "round_half_even n d =
     (let f = n div d; t = 2 * (n mod d)
      in if t < d then f else if d < t then f + 1 else if even f then f else f + 1)"

definition round_double_pos :: "int \<Rightarrow> int \<Rightarrow> jsnum" where
  "round_double_pos a b =
     (let t = max (floor_log2 a b - 52) (- 1074);
          m = round_half_even (shl a (- t)) (shl b t)
      in if ipow 2 1024 \<le> shl m t then PosInf
         else Fin (of_int (shl m t) / of_int (shl 1 (- t))))"

definition round_double :: "rat \<Rightarrow> jsnum" where
  "round_double q =
     (let a = fst (quotient_of q); b = snd (quotient_of q)
      in if a = 0 then Fin 0
         else if 0 < a then round_double_pos a b
         else num_neg (round_double_pos (- a) b))"

text \<open>A rational that is a double: what a finite number of a request body is.\<close>

definition is_double :: "rat \<Rightarrow> bool" where
  "is_double q = (round_double q = Fin q)"

subsubsection \<open>Numeric literals\<close>

definition scale10 :: "rat \<Rightarrow> int \<Rightarrow> rat" where
  "scale10 x e = (if 0 \<le> e then x * of_int (ipow 10 e) else x / of_int (ipow 10 (- e)))"

text \<open>The exponent part of a decimal literal: nothing, or \<^verbatim>\<open>e\<close>, an optional sign and digits.\<close>

definition exponent_part :: "string \<Rightarrow> int option" where
  "exponent_part s =
     (case s of
        [] \<Rightarrow> Some 0
      | c # t \<Rightarrow>
          if c = CHR ''e'' \<or> c = CHR ''E'' then
            (case t of
               [] \<Rightarrow> None
             | d # u \<Rightarrow>
                 if d = CHR ''-'' then
                   (if u \<noteq> [] \<and> list_all (is_digit 10) u then Some (- int (digits_val 10 u)) else None)
                 else if d = CHR ''+'' then
                   (if u \<noteq> [] \<and> list_all (is_digit 10) u then Some (int (digits_val 10 u)) else None)
                 else
                   (if list_all (is_digit 10) t then Some (int (digits_val 10 t)) else None))
          else None)"

text \<open>\<^verbatim>\<open>StrUnsignedDecimalLiteral\<close>: \<^verbatim>\<open>Infinity\<close>, \<^verbatim>\<open>12\<close>, \<^verbatim>\<open>12.\<close>, \<^verbatim>\<open>12.5\<close>, \<^verbatim>\<open>.5\<close>, each with
  an optional exponent. Anything else is \<^verbatim>\<open>NaN\<close>. The value of the literal is rounded to
  a double: \<^verbatim>\<open>1e-324\<close> is 0 and \<^verbatim>\<open>1e400\<close> is \<^verbatim>\<open>Infinity\<close>.\<close>

definition unsigned_decimal :: "string \<Rightarrow> jsnum" where
  "unsigned_decimal s =
     (if s = ''Infinity'' then PosInf
      else
        let ip = takeWhile (is_digit 10) s;
            r1 = dropWhile (is_digit 10) s;
            fp = (case r1 of [] \<Rightarrow> [] | c # t \<Rightarrow> if c = CHR ''.'' then takeWhile (is_digit 10) t else []);
            r2 = (case r1 of [] \<Rightarrow> [] | c # t \<Rightarrow> if c = CHR ''.'' then dropWhile (is_digit 10) t else r1)
        in if ip = [] \<and> fp = [] then NaN
           else (case exponent_part r2 of
                   None \<Rightarrow> NaN
                 | Some e \<Rightarrow>
                     round_double
                       (scale10 (of_nat (digits_val 10 ip)
                                 + of_nat (digits_val 10 fp) / 10 ^ length fp) e)))"

definition radix_literal :: "nat \<Rightarrow> string \<Rightarrow> jsnum" where
  "radix_literal radix ds =
     (if ds \<noteq> [] \<and> list_all (is_digit radix) ds
      then round_double (of_nat (digits_val radix ds)) else NaN)"

text \<open>\<^verbatim>\<open>StringToNumber\<close>: trim, the empty string is 0, then a radix literal without sign or a
  signed decimal literal.\<close>

definition str_to_num :: "string \<Rightarrow> jsnum" where
  "str_to_num s =
     (let t = trim s in
      if t = [] then Fin 0
      else if take 2 t = ''0x'' \<or> take 2 t = ''0X'' then radix_literal 16 (drop 2 t)
      else if take 2 t = ''0o'' \<or> take 2 t = ''0O'' then radix_literal 8 (drop 2 t)
      else if take 2 t = ''0b'' \<or> take 2 t = ''0B'' then radix_literal 2 (drop 2 t)
      else if hd t = CHR ''+'' then unsigned_decimal (tl t)
      else if hd t = CHR ''-'' then num_neg (unsigned_decimal (tl t))
      else unsigned_decimal t)"

text \<open>\<^verbatim>\<open>ToNumber\<close>. An array goes through its string form, the elements joined by commas:
  the empty array is the empty string, a one-element array is the string of its element
  (empty for \<^verbatim>\<open>null\<close> and \<^verbatim>\<open>undefined\<close>), and a longer one holds a comma, which no
  numeric literal has. A plain object prints as \<^verbatim>\<open>[object Object]\<close>.\<close>

fun js_Number :: "jsval \<Rightarrow> jsnum" where
  "js_Number JUndefined = NaN"
| "js_Number JNull = Fin 0"
| "js_Number (JBool b) = (if b then Fin 1 else Fin 0)"
| "js_Number (JNum n) = n"
| "js_Number (JStr s) = str_to_num s"
| "js_Number (JArr []) = Fin 0"
| "js_Number (JArr [x]) =
     (case x of
        JUndefined \<Rightarrow> Fin 0
      | JNull \<Rightarrow> Fin 0
      | JBool b \<Rightarrow> NaN
      | JObj ps \<Rightarrow> NaN
      | _ \<Rightarrow> js_Number x)"
| "js_Number (JArr (x # y # zs)) = NaN"
| "js_Number (JObj ps) = NaN"

definition js_isNaN :: "jsval \<Rightarrow> bool" where
  "js_isNaN x = (js_Number x = NaN)"

text \<open>The relational operators with a number on the right, as every comparison of the
  handlers has: the left operand is coerced with \<^verbatim>\<open>ToNumber\<close>, and a comparison with
  \<^verbatim>\<open>NaN\<close> is false.\<close>

fun num_lt :: "jsnum \<Rightarrow> jsnum \<Rightarrow> bool" where
  "num_lt NaN b = False"
| "num_lt a NaN = False"
| "num_lt (Fin a) (Fin b) = (a < b)"
| "num_lt NegInf b = (b \<noteq> NegInf)"
| "num_lt a PosInf = (a \<noteq> PosInf)"
| "num_lt a b = False"

definition num_le :: "jsnum \<Rightarrow> jsnum \<Rightarrow> bool" where
  "num_le a b = (num_lt a b \<or> (a = b \<and> a \<noteq> NaN))"

definition js_lt :: "jsval \<Rightarrow> rat \<Rightarrow> bool" where
  "js_lt x q = num_lt (js_Number x) (Fin q)"

definition js_gt :: "jsval \<Rightarrow> rat \<Rightarrow> bool" where
  "js_gt x q = num_lt (Fin q) (js_Number x)"

definition js_le :: "jsval \<Rightarrow> rat \<Rightarrow> bool" where
  "js_le x q = num_le (js_Number x) (Fin q)"

definition js_ge :: "jsval \<Rightarrow> rat \<Rightarrow> bool" where
  "js_ge x q = num_le (Fin q) (js_Number x)"

text \<open>\<^verbatim>\<open>parseInt(s)\<close> without a radix: leading white space, a sign, an optional
  \<^verbatim>\<open>0x\<close>, then the longest run of digits; no digit gives \<^verbatim>\<open>NaN\<close>, here \<open>None\<close>. A query
  parameter that is absent is \<^verbatim>\<open>undefined\<close>, whose string form has no digit.\<close>

definition parse_digits :: "string \<Rightarrow> int option" where
  "parse_digits t =
     (let hex = (take 2 t = ''0x'' \<or> take 2 t = ''0X'');
          radix = (if hex then 16 else 10);
          body = (if hex then drop 2 t else t);
          ds = takeWhile (is_digit radix) body
      in if ds = [] then None else Some (int (digits_val radix ds)))"

definition js_parseInt :: "string option \<Rightarrow> int option" where
  "js_parseInt p =
     (case p of
        None \<Rightarrow> None
      | Some s \<Rightarrow>
          let t = dropWhile is_ws s;
              neg = (t \<noteq> [] \<and> hd t = CHR ''-'');
              u = (if t \<noteq> [] \<and> (hd t = CHR ''-'' \<or> hd t = CHR ''+'') then tl t else t)
          in (case parse_digits u of
                None \<Rightarrow> None
              | Some n \<Rightarrow> Some (if neg then - n else n)))"

text \<open>\<^verbatim>\<open>parseInt(s) || d\<close>: the default replaces \<^verbatim>\<open>NaN\<close> and also 0, which is falsy.\<close>

definition parseInt_or :: "string option \<Rightarrow> int \<Rightarrow> int" where
  "parseInt_or p d = (case js_parseInt p of None \<Rightarrow> d | Some n \<Rightarrow> if n = 0 then d else n)"

definition isArray :: "jsval \<Rightarrow> bool" where
  "isArray x = (case x of JArr xs \<Rightarrow> True | _ \<Rightarrow> False)"

section \<open>Rows and \<^verbatim>\<open>cleanListing\<close>\<close>

text \<open>
  A row of a query result is a JavaScript object, one property per selected column.
  The spread \<^verbatim>\<open>{...row, price: e}\<close> keeps the properties of the row and sets \<^verbatim>\<open>price\<close>,
  in place when the row has it and at the end otherwise.
\<close>

type_synonym row = jsobj

definition set_prop :: "string \<Rightarrow> jsval \<Rightarrow> jsobj \<Rightarrow> jsobj" where
  "set_prop k v ps = AList.update k v ps"

definition number_or_0 :: "jsval \<Rightarrow> jsval" where
  "number_or_0 x = js_or (JNum (js_Number x)) (JNum (Fin 0))"

definition array_or_empty :: "jsval \<Rightarrow> jsval" where
  "array_or_empty x = (if isArray x then x else JArr [])"

definition cleanListing :: "row \<Rightarrow> row" where
  "cleanListing r =
     set_prop ''variants'' (array_or_empty (get r ''variants''))
       (set_prop ''image_urls'' (array_or_empty (get r ''image_urls''))
         (set_prop ''stock_quantity'' (number_or_0 (get r ''stock_quantity''))
           (set_prop ''rating_count'' (number_or_0 (get r ''rating_count''))
             (set_prop ''average_rating'' (number_or_0 (get r ''average_rating''))
               (set_prop ''price'' (number_or_0 (get r ''price'')) r)))))"

section \<open>The catalog store\<close>

text \<open>
  The store is PostgreSQL behind \<^verbatim>\<open>pool.query\<close>. Its schema is not part of the sources,
  so the tables are modelled from the statements the handlers send and from the data
  model of the specification. A \<^verbatim>\<open>listings\<close> row is held as the object the driver
  returns for it, a column holding the value that was sent for it; the store's own type
  checks on client-supplied columns are not modelled. The columns \<^verbatim>\<open>id\<close>,
  \<^verbatim>\<open>user_id\<close> and \<^verbatim>\<open>rating_count\<close> hold integers, \<^verbatim>\<open>status\<close> a string.
  A \<^verbatim>\<open>ratings\<close> row is only ever read by SQL in the handlers below and is a record.
  Identifiers in a path are taken as the integers the store reads them as, except in the
  by-owner route, where the handler itself parses the parameter.

  The authentication middleware is not among the sources. It supplies \<^verbatim>\<open>req.user\<close>, the
  identity \<^verbatim>\<open>{userId, role}\<close> of a verified bearer token, to every handler registered
  behind it; such a handler takes the identity as its first argument.
\<close>

datatype error =
    ValidationError string
  | PermissionError string
  | NotFound string
  | StoreFailure string
  | Uncaught string

text \<open>The five kinds are the statuses 400, 403, 404 and 500 of the responses, and an
  exception that leaves the handler because it was raised outside its \<^verbatim>\<open>try\<close> block.\<close>

record identity =
  userId :: int
  role :: string

record rating_row =
  rating_id :: int
  listing_id :: int
  user_id :: int
  rating :: int
  comment :: jsval

record db =
  listings :: "row list"
  ratings :: "rating_row list"
  users :: "row list"

definition js_int :: "int \<Rightarrow> jsval" where
  "js_int i = JNum (Fin (of_int i))"

definition has_id :: "int \<Rightarrow> row \<Rightarrow> bool" where
  "has_id i r = (get r ''id'' = js_int i)"

definition project :: "string list \<Rightarrow> row \<Rightarrow> row" where
  "project cols r = map (\<lambda>k. (k, get r k)) cols"

text \<open>How the store reads a text parameter for an integer column: optional white space
  and sign, then decimal digits only. \<open>None\<close> is the store's syntax error.\<close>

definition pg_int :: "string \<Rightarrow> int option" where
  "pg_int s =
     (let t = trim s;
          neg = (t \<noteq> [] \<and> hd t = CHR ''-'');
          u = (if t \<noteq> [] \<and> (hd t = CHR ''-'' \<or> hd t = CHR ''+'') then tl t else t)
      in if u \<noteq> [] \<and> list_all (is_digit 10) u
         then Some (if neg then - int (digits_val 10 u) else int (digits_val 10 u))
         else None)"

definition is_integral :: "rat \<Rightarrow> bool" where
  "is_integral q = (snd (quotient_of q) = 1)"

text \<open>Modelled from the spec: the table declaration is missing; the column
  \<^verbatim>\<open>ratings.rating\<close> is an integer (``\<^verbatim>\<open>value\<close> (integer 1--5)''). The driver sends a
  number as its decimal text, so a number with a fraction, a boolean, an array or an object
  is a syntax error of the store.\<close>

definition pg_integer :: "jsval \<Rightarrow> int option" where
  "pg_integer x =
     (case x of
        JNum n \<Rightarrow> (case n of Fin q \<Rightarrow> if is_integral q then Some (fst (quotient_of q)) else None
                   | _ \<Rightarrow> None)
      | JStr s \<Rightarrow> pg_int s
      | _ \<Rightarrow> None)"

subsection \<open>The rating aggregates\<close>

definition ratings_of :: "int \<Rightarrow> db \<Rightarrow> int list" where
  "ratings_of lid d = map rating (filter (\<lambda>r. listing_id r = lid) (ratings d))"

text \<open>\<open>round_div a b\<close> is \<open>a / b\<close> rounded to the nearest integer, a half away from
  zero, as PostgreSQL rounds a \<^verbatim>\<open>numeric\<close>.\<close>

definition round_div :: "int \<Rightarrow> int \<Rightarrow> int" where
  "round_div a b =
     (if 0 \<le> a then (2 * a + b) div (2 * b) else - ((2 * (- a) + b) div (2 * b)))"

definition hundredths :: "int list \<Rightarrow> int" where
  "hundredths vs = round_div (100 * sum_list vs) (int (length vs))"

text \<open>\<^verbatim>\<open>(SELECT AVG(rating)::numeric(3,2) FROM ratings WHERE listing_id = $1)\<close>: \<^verbatim>\<open>NULL\<close>
  over no row; otherwise the mean rounded to two decimals, and an error of the store
  (\<open>None\<close>) when the rounded value does not fit three digits.\<close>

definition avg_numeric_3_2 :: "int list \<Rightarrow> jsval option" where
  "avg_numeric_3_2 vs =
     (if vs = [] then Some JNull
      else if 1000 \<le> \<bar>hundredths vs\<bar> then None
      else Some (JNum (Fin (of_int (hundredths vs) / 100))))"

text \<open>\<^verbatim>\<open>rating_count + 1\<close> in SQL: \<^verbatim>\<open>NULL\<close> stays \<^verbatim>\<open>NULL\<close>.\<close>

definition sql_plus1 :: "jsval \<Rightarrow> jsval" where
  "sql_plus1 x = (case x of JNum n \<Rightarrow> (case n of Fin q \<Rightarrow> JNum (Fin (q + 1)) | _ \<Rightarrow> JNull) | _ \<Rightarrow> JNull)"

definition coalesce :: "jsval \<Rightarrow> jsval \<Rightarrow> jsval" where
  "coalesce x y = (if x = JNull then y else x)"

definition fresh_rating_id :: "rating_row list \<Rightarrow> int" where
  "fresh_rating_id rs = foldr max (map rating_id rs) 0 + 1"

definition update_where :: "(row \<Rightarrow> bool) \<Rightarrow> (row \<Rightarrow> row) \<Rightarrow> row list \<Rightarrow> row list" where
  "update_where p f rows = map (\<lambda>r. if p r then f r else r) rows"

section \<open>Rating a listing and deleting a rating\<close>

text \<open>\<^verbatim>\<open>if (!rating || rating < 1 || rating > 5)\<close>\<close>

definition rating_invalid :: "jsval \<Rightarrow> bool" where
  "rating_invalid x = (\<not> truthy x \<or> js_lt x 1 \<or> js_gt x 5)"

text \<open>\<^verbatim>\<open>POST /:id/rating\<close>. The insert and the update of the aggregates are two statements
  without a transaction: when the second one fails, the row of the first one stays.\<close>

definition rate :: "identity \<Rightarrow> int \<Rightarrow> jsobj \<Rightarrow> db \<Rightarrow> (error + jsobj) \<times> db" where
  "rate user lid body d =
     (let rating = get body ''rating''; comment = get body ''comment'' in
      if rating_invalid rating then
        (Inl (ValidationError ''Rating must be between 1 and 5''), d)
      else if filter (has_id lid) (listings d) = [] then
        (Inl (NotFound ''Listing not found''), d)
      else if filter (\<lambda>r. listing_id r = lid \<and> user_id r = userId user) (ratings d) \<noteq> [] then
        (Inl (ValidationError ''You have already rated this listing''), d)
      else
        (case pg_integer rating of
           None \<Rightarrow> (Inl (StoreFailure ''Failed to submit rating''), d)
         | Some v \<Rightarrow>
             let d1 = d\<lparr>ratings := ratings d @
                        [\<lparr>rating_id = fresh_rating_id (ratings d), listing_id = lid,
                          user_id = userId user, rating = v, comment = js_or comment JNull\<rparr>]\<rparr>
             in (case avg_numeric_3_2 (ratings_of lid d1) of
                   None \<Rightarrow> (Inl (StoreFailure ''Failed to submit rating''), d1)
                 | Some avg \<Rightarrow>
                     (Inr [(''message'', JStr ''Rating submitted successfully'')],
                      d1\<lparr>listings := update_where (has_id lid)
                           (\<lambda>r. set_prop ''average_rating'' avg
                                  (set_prop ''rating_count'' (sql_plus1 (get r ''rating_count'')) r))
                           (listings d1)\<rparr>))))"

text \<open>\<^verbatim>\<open>DELETE /ratings/:ratingId\<close>\<close>

definition deleteRating :: "identity \<Rightarrow> int \<Rightarrow> db \<Rightarrow> (error + jsobj) \<times> db" where
  "deleteRating user rid d =
     (case concat (map (\<lambda>r. map (\<lambda>l. (listing_id r, get l ''user_id''))
                                 (filter (has_id (listing_id r)) (listings d)))
                       (filter (\<lambda>r. rating_id r = rid) (ratings d))) of
        [] \<Rightarrow> (Inl (NotFound ''Rating not found''), d)
      | info # rest \<Rightarrow>
          if js_int (userId user) \<noteq> snd info \<and> role user \<noteq> ''admin'' then
            (Inl (PermissionError ''Not authorized to delete this rating''), d)
          else
            let d1 = d\<lparr>ratings := filter (\<lambda>r. rating_id r \<noteq> rid) (ratings d)\<rparr> in
            (case avg_numeric_3_2 (ratings_of (fst info) d1) of
               None \<Rightarrow> (Inl (StoreFailure ''Server error''), d1)
             | Some avg \<Rightarrow>
                 (Inr [(''message'', JStr ''Rating deleted successfully'')],
                  d1\<lparr>listings := update_where (has_id (fst info))
                       (\<lambda>r. set_prop ''average_rating'' (coalesce avg (JNum (Fin 0)))
                              (set_prop ''rating_count''
                                 (js_int (int (length (ratings_of (fst info) d1)))) r))
                       (listings d1)\<rparr>)))"

datatype rating_op = Rate identity int jsobj | DeleteRating identity int

fun step :: "rating_op \<Rightarrow> db \<Rightarrow> (error + jsobj) \<times> db" where
  "step (Rate user lid body) d = rate user lid body d"
| "step (DeleteRating user rid) d = deleteRating user rid d"

text \<open>A sequence of operations every one of which succeeds; \<open>None\<close> as soon as one fails.\<close>

fun run_ops :: "db \<Rightarrow> rating_op list \<Rightarrow> db option" where
  "run_ops d [] = Some d"
| "run_ops d (opn # ops) =
     (case step opn d of
        (Inl e, d') \<Rightarrow> None
      | (Inr ok, d') \<Rightarrow> run_ops d' ops)"

text \<open>The aggregates of listing \<open>lid\<close> as the code maintains them: the count of its
  ratings, and their mean rounded to two decimals (0 without ratings).\<close>

definition mean_3_2 :: "int list \<Rightarrow> jsval" where
  "mean_3_2 vs = (if vs = [] then JNum (Fin 0) else JNum (Fin (of_int (hundredths vs) / 100)))"

definition row_agg_rounded :: "int list \<Rightarrow> row \<Rightarrow> bool" where
  "row_agg_rounded vs r =
     (get r ''rating_count'' = js_int (int (length vs)) \<and> get r ''average_rating'' = mean_3_2 vs)"

definition agg_rounded :: "db \<Rightarrow> int \<Rightarrow> bool" where
  "agg_rounded d lid =
     list_all (row_agg_rounded (ratings_of lid d)) (filter (has_id lid) (listings d))"

text \<open>The aggregates as the specification words them: the count, and the arithmetic mean
  of the values (0 without ratings).\<close>

definition mean_exact :: "int list \<Rightarrow> jsval" where
  "mean_exact vs =
     (if vs = [] then JNum (Fin 0) else JNum (Fin (of_int (sum_list vs) / of_nat (length vs))))"

definition row_agg_exact :: "int list \<Rightarrow> row \<Rightarrow> bool" where
  "row_agg_exact vs r =
     (get r ''rating_count'' = js_int (int (length vs)) \<and> get r ''average_rating'' = mean_exact vs)"

definition agg_exact :: "db \<Rightarrow> int \<Rightarrow> bool" where
  "agg_exact d lid =
     list_all (row_agg_exact (ratings_of lid d)) (filter (has_id lid) (listings d))"

section \<open>The variant filter\<close>

text \<open>
  \<^verbatim>\<open>variants.filter(v => { const hasOption = (v.color || '').trim() || (v.size || '').trim();
  const stockValid = Number(v.stock) >= 0 && !isNaN(Number(v.stock)); return hasOption && stockValid; })\<close>

  Reading a property of \<^verbatim>\<open>null\<close> or \<^verbatim>\<open>undefined\<close> raises a \<^verbatim>\<open>TypeError\<close>, and so does
  calling \<^verbatim>\<open>trim\<close> on a value that is no string; both are \<open>Inl\<close> here. The properties
  \<^verbatim>\<open>color\<close>, \<^verbatim>\<open>size\<close> and \<^verbatim>\<open>stock\<close> are \<^verbatim>\<open>undefined\<close> on numbers, booleans, strings
  and arrays.
\<close>

definition prop_of :: "jsval \<Rightarrow> string \<Rightarrow> string + jsval" where
  "prop_of v k =
     (case v of
        JUndefined \<Rightarrow> Inl ''TypeError: cannot read properties of undefined''
      | JNull \<Rightarrow> Inl ''TypeError: cannot read properties of null''
      | JObj ps \<Rightarrow> Inr (get ps k)
      | _ \<Rightarrow> Inr JUndefined)"

definition call_trim :: "jsval \<Rightarrow> string + string" where
  "call_trim x = (case x of JStr s \<Rightarrow> Inr (trim s) | _ \<Rightarrow> Inl ''TypeError: trim is not a function'')"

text \<open>\<^verbatim>\<open>(v.k || '').trim()\<close>\<close>

definition trimmed_option :: "jsval \<Rightarrow> string \<Rightarrow> string + string" where
  "trimmed_option v k =
     (case prop_of v k of
        Inl e \<Rightarrow> Inl e
      | Inr c \<Rightarrow> call_trim (js_or c (JStr [])))"

text \<open>\<^verbatim>\<open>hasOption\<close>, as its truth value: the size is only looked at when the trimmed colour
  is empty.\<close>

definition hasOption :: "jsval \<Rightarrow> string + bool" where
  "hasOption v =
     (case trimmed_option v ''color'' of
        Inl e \<Rightarrow> Inl e
      | Inr c \<Rightarrow>
          if c \<noteq> [] then Inr True
          else (case trimmed_option v ''size'' of
                  Inl e \<Rightarrow> Inl e
                | Inr s \<Rightarrow> Inr (s \<noteq> [])))"

definition stockValid :: "jsval \<Rightarrow> bool" where
  "stockValid v =
     (case prop_of v ''stock'' of
        Inl e \<Rightarrow> False
      | Inr st \<Rightarrow> js_ge st 0 \<and> \<not> js_isNaN st)"

definition keep_variant :: "jsval \<Rightarrow> string + bool" where
  "keep_variant v =
     (case hasOption v of
        Inl e \<Rightarrow> Inl e
      | Inr h \<Rightarrow> Inr (h \<and> stockValid v))"

fun filter_variants :: "jsval list \<Rightarrow> string + jsval list" where
  "filter_variants [] = Inr []"
| "filter_variants (v # vs) =
     (case keep_variant v of
        Inl e \<Rightarrow> Inl e
      | Inr keep \<Rightarrow>
          (case filter_variants vs of
             Inl e \<Rightarrow> Inl e
           | Inr rest \<Rightarrow> Inr (if keep then v # rest else rest)))"

definition array_items :: "jsval \<Rightarrow> jsval list" where
  "array_items x = (case x of JArr xs \<Rightarrow> xs | _ \<Rightarrow> [])"

section \<open>Creating, patching, deleting and moderating a listing\<close>

text \<open>A destructuring default \<^verbatim>\<open>{ k = d } = req.body\<close> applies when the property is
  \<^verbatim>\<open>undefined\<close> only.\<close>

definition with_default :: "jsval \<Rightarrow> jsval \<Rightarrow> jsval" where
  "with_default x d = (if x = JUndefined then d else x)"

text \<open>
  \<^verbatim>\<open>POST /\<close>. The checks and the variant filter stand before the \<^verbatim>\<open>try\<close> block, so a
  \<^verbatim>\<open>TypeError\<close> of \<^verbatim>\<open>title.trim()\<close> or of the filter leaves the handler. The store assigns
  the identifier and the creation time, which are arguments here. The variants are sent
  as the array itself; the model stores the array.
\<close>

text \<open>Modelled from the spec: the column defaults of the table declaration are missing;
  the aggregates of a new row are 0 (\<^verbatim>\<open>averageRating\<close> and \<^verbatim>\<open>ratingCount\<close> are derived,
  and 0 without ratings).\<close>

definition create :: "identity \<Rightarrow> jsobj \<Rightarrow> int \<Rightarrow> int \<Rightarrow> db \<Rightarrow> (error + jsobj) \<times> db" where
  "create user body new_id now d =
     (let title = get body ''title'';
          description = get body ''description'';
          price = get body ''price'';
          condition = with_default (get body ''condition'') (JStr ''Used - Good'');
          whatsapp_phone = get body ''whatsapp_phone'';
          image_urls = with_default (get body ''image_urls'') (JArr []);
          stock_quantity = with_default (get body ''stock_quantity'') (JNum (Fin 1));
          category = with_default (get body ''category'') (JStr ''Other'');
          variants = with_default (get body ''variants'') (JArr [])
      in if title = JUndefined \<or> title = JNull then
           (Inl (ValidationError ''Title is required''), d)
         else
           (case call_trim title of
              Inl e \<Rightarrow> (Inl (Uncaught e), d)
            | Inr trimmed \<Rightarrow>
                if trimmed = [] then (Inl (ValidationError ''Title is required''), d)
                else if \<not> truthy price \<or> js_isNaN price \<or> js_le price 0 then
                  (Inl (ValidationError ''Valid positive price required''), d)
                else if js_lt stock_quantity 1 then
                  (Inl (ValidationError ''Stock quantity must be at least 1''), d)
                else if \<not> isArray variants then
                  (Inl (ValidationError ''Variants must be an array''), d)
                else
                  (case filter_variants (array_items variants) of
                     Inl e \<Rightarrow> (Inl (Uncaught e), d)
                   | Inr cleanedVariants \<Rightarrow>
                       (Inr [(''id'', js_int new_id), (''title'', JStr trimmed),
                             (''status'', JStr ''pending''), (''created_at'', js_int now)],
                        d\<lparr>listings := listings d @
                            [[(''id'', js_int new_id),
                              (''user_id'', js_int (userId user)),
                              (''title'', JStr trimmed),
                              (''description'', js_or description JNull),
                              (''price'', price),
                              (''condition'', condition),
                              (''whatsapp_phone'', js_or whatsapp_phone JNull),
                              (''image_urls'', image_urls),
                              (''stock_quantity'', stock_quantity),
                              (''category'', category),
                              (''variants'', JArr cleanedVariants),
                              (''status'', JStr ''pending''),
                              (''average_rating'', JNum (Fin 0)),
                              (''rating_count'', js_int 0),
                              (''created_at'', js_int now)]]\<rparr>))))"

definition allowedFields :: "string list" where
  "allowedFields =
     [''title'', ''description'', ''price'', ''condition'', ''whatsapp_phone'',
      ''image_url'', ''image_urls'', ''stock_quantity'', ''category'', ''variants'']"

text \<open>\<^verbatim>\<open>allowedFields.forEach(field => { if (req.body[field] !== undefined) updates[field] = req.body[field]; })\<close>\<close>

definition collect_updates :: "jsobj \<Rightarrow> jsobj" where
  "collect_updates body =
     map (\<lambda>f. (f, get body f)) (filter (\<lambda>f. get body f \<noteq> JUndefined) allowedFields)"

definition has_key :: "string \<Rightarrow> jsobj \<Rightarrow> bool" where
  "has_key k ps = (map_of ps k \<noteq> None)"

definition validate_price :: "jsobj \<Rightarrow> error + jsobj" where
  "validate_price updates =
     (if has_key ''price'' updates then
        (let priceVal = js_Number (get updates ''price'') in
         if priceVal = NaN \<or> num_le priceVal (Fin 0) then
           Inl (ValidationError ''Price must be a positive number'')
         else Inr (set_prop ''price'' (JNum priceVal) updates))
      else Inr updates)"

definition validate_stock :: "jsobj \<Rightarrow> error + jsobj" where
  "validate_stock updates =
     (if has_key ''stock_quantity'' updates then
        (let stockVal = js_Number (get updates ''stock_quantity'') in
         if stockVal = NaN \<or> num_lt stockVal (Fin 0) then
           Inl (ValidationError ''Stock quantity cannot be negative'')
         else Inr (set_prop ''stock_quantity'' (JNum stockVal) updates))
      else Inr updates)"

text \<open>
  The loop that builds the \<^verbatim>\<open>SET\<close> list. The filtered variants are sent as JSON text and
  read back as the array they denote; the model keeps the array. A \<^verbatim>\<open>TypeError\<close> of the
  filter is caught by the handler's \<^verbatim>\<open>catch\<close> and answered with status 500.
\<close>

fun build_values :: "jsobj \<Rightarrow> error + jsobj" where
  "build_values [] = Inr []"
| "build_values ((key, rawValue) # entries) =
     (if key = ''variants'' then
        (if \<not> isArray rawValue then Inl (ValidationError ''Variants must be an array'')
         else (case filter_variants (array_items rawValue) of
                 Inl e \<Rightarrow> Inl (StoreFailure ''Failed to update listing'')
               | Inr vs \<Rightarrow>
                   (case build_values entries of
                      Inl e \<Rightarrow> Inl e
                    | Inr rest \<Rightarrow> Inr ((key, JArr vs) # rest))))
      else (case build_values entries of
              Inl e \<Rightarrow> Inl e
            | Inr rest \<Rightarrow> Inr ((key, rawValue) # rest)))"

text \<open>\<^verbatim>\<open>UPDATE listings SET k1 = $1, ..., kn = $n WHERE id = $m\<close> on one row.\<close>

definition apply_updates :: "jsobj \<Rightarrow> row \<Rightarrow> row" where
  "apply_updates vals r = foldl (\<lambda>acc kv. set_prop (fst kv) (snd kv) acc) r vals"

text \<open>\<^verbatim>\<open>PATCH /:id\<close>\<close>

definition patch :: "identity \<Rightarrow> int \<Rightarrow> jsobj \<Rightarrow> db \<Rightarrow> (error + row) \<times> db" where
  "patch user lid body d =
     (let updates = collect_updates body in
      if updates = [] then (Inl (ValidationError ''No valid fields provided for update''), d)
      else
        (case validate_price updates of
           Inl e \<Rightarrow> (Inl e, d)
         | Inr u1 \<Rightarrow>
             (case validate_stock u1 of
                Inl e \<Rightarrow> (Inl e, d)
              | Inr u2 \<Rightarrow>
                  (case filter (has_id lid) (listings d) of
                     [] \<Rightarrow> (Inl (NotFound ''Listing not found''), d)
                   | owned # others \<Rightarrow>
                       if get owned ''user_id'' \<noteq> js_int (userId user) then
                         (Inl (PermissionError ''You are not authorized to edit this listing''), d)
                       else
                         (case build_values u2 of
                            Inl e \<Rightarrow> (Inl e, d)
                          | Inr vals \<Rightarrow>
                              (case map (apply_updates vals) (filter (has_id lid) (listings d)) of
                                 [] \<Rightarrow> (Inl (NotFound ''Listing not found''), d)
                               | updated # further \<Rightarrow>
                                   (Inr (cleanListing updated),
                                    d\<lparr>listings :=
                                        update_where (has_id lid) (apply_updates vals) (listings d)\<rparr>)))))))"

text \<open>\<^verbatim>\<open>DELETE /:id\<close>\<close>


text \<open>
  \<^verbatim>\<open>PATCH /listings/:id\<close> of \<^verbatim>\<open>routes/admin.js\<close>. The route runs behind the
  authentication middleware, which supplies \<^verbatim>\<open>req.user\<close>; the handler never reads it.
\<close>

definition moderate :: "identity \<Rightarrow> int \<Rightarrow> jsobj \<Rightarrow> db \<Rightarrow> (error + jsobj) \<times> db" where
  "moderate user lid body d =
     (let status = get body ''status'' in
      if status \<notin> set [JStr ''approved'', JStr ''rejected''] then
        (Inl (ValidationError ''Invalid status value''), d)
      else
        (case map (\<lambda>r. project [''id'', ''title'', ''status''] (set_prop ''status'' status r))
                  (filter (has_id lid) (listings d)) of
           [] \<Rightarrow> (Inl (NotFound ''Listing not found''), d)
         | returned # further \<Rightarrow>
             (Inr [(''message'', JStr (''Listing '' @ (case status of JStr s \<Rightarrow> s | _ \<Rightarrow> []))),
                   (''data'', JObj returned)],
              d\<lparr>listings := update_where (has_id lid) (set_prop ''status'' status) (listings d)\<rparr>)))"

section \<open>The read paths\<close>

text \<open>
  A read handler builds a \<^verbatim>\<open>SELECT\<close>, the store answers it, and the handler maps
  \<^verbatim>\<open>cleanListing\<close> over the rows. \<^verbatim>\<open>ORDER BY\<close> fixes the order of the answer only up to
  rows with equal keys, so the sorted sequence the store produced is an argument of the
  handler, and \<open>store_sorted\<close> says which sequences the store may produce.
  Timestamps are numbers. A column is compared by the number its value denotes
  (\<^verbatim>\<open>NULL\<close> and other non-numbers as 0).
\<close>

datatype order_by = CreatedDesc | PriceAsc | PriceDesc

definition col_num :: "row \<Rightarrow> string \<Rightarrow> jsnum" where
  "col_num r k = (let n = js_Number (get r k) in if n = NaN then Fin 0 else n)"

fun precedes :: "order_by \<Rightarrow> row \<Rightarrow> row \<Rightarrow> bool" where
  "precedes CreatedDesc a b = num_le (col_num b ''created_at'') (col_num a ''created_at'')"
| "precedes PriceAsc a b = num_le (col_num a ''price'') (col_num b ''price'')"
| "precedes PriceDesc a b = num_le (col_num b ''price'') (col_num a ''price'')"

definition store_sorted :: "order_by \<Rightarrow> row list \<Rightarrow> row list \<Rightarrow> bool" where
  "store_sorted ob matching ordered =
     (mset ordered = mset matching \<and> sorted_wrt (precedes ob) ordered)"

text \<open>SQL equality is not true on \<^verbatim>\<open>NULL\<close>.\<close>

definition sql_eq :: "jsval \<Rightarrow> jsval \<Rightarrow> bool" where
  "sql_eq a b = (a = b \<and> a \<noteq> JNull \<and> a \<noteq> JUndefined)"

text \<open>\<^verbatim>\<open>FROM listings l JOIN users u ON l.user_id = u.id\<close>\<close>

definition join_users :: "db \<Rightarrow> (row \<times> row) list" where
  "join_users d =
     concat (map (\<lambda>l. map (\<lambda>u. (l, u))
                          (filter (\<lambda>u. sql_eq (get l ''user_id'') (get u ''id'')) (users d)))
                 (listings d))"

text \<open>\<^verbatim>\<open>text ILIKE pattern\<close>: \<^verbatim>\<open>%\<close> matches any sequence, \<^verbatim>\<open>_\<close> one character, a
  backslash takes the next character literally; letters match without case.\<close>

definition lower :: "char \<Rightarrow> char" where
  "lower c = (let n = (of_char c :: nat) in if 65 \<le> n \<and> n \<le> 90 then char_of (n + 32) else c)"

fun like :: "string \<Rightarrow> string \<Rightarrow> bool" where
  "like [] s = (s = [])"
| "like (p # ps) [] = (p = CHR ''%'' \<and> like ps [])"
| "like (p # ps) (c # cs) =
     (if p = CHR ''%'' then like ps (c # cs) \<or> like (p # ps) cs
      else if p = CHR ''_'' then like ps cs
      else if p = CHR 0x5C then (case ps of [] \<Rightarrow> False | q # qs \<Rightarrow> q = c \<and> like qs cs)
      else p = c \<and> like ps cs)"

definition ilike :: "jsval \<Rightarrow> string \<Rightarrow> bool" where
  "ilike x pattern = (case x of JStr t \<Rightarrow> like (map lower pattern) (map lower t) | _ \<Rightarrow> False)"

subsection \<open>\<^verbatim>\<open>GET /\<close>\<close>

record search_req =
  q_page :: "string option"
  q_limit :: "string option"
  q_sort :: "string option"
  q_search :: "string option"
  q_category :: "string option"

record listings_query =
  page_no :: int
  limit_no :: int
  offset_no :: int
  orderBy :: order_by
  where_search :: "string option"
  where_category :: "string option"

record search_response =
  data :: "row list"
  currentPage :: int
  totalPages :: int
  totalItems :: int
  hasNext :: bool
  hasPrev :: bool

definition nonempty :: "string option \<Rightarrow> string option" where
  "nonempty x = (case x of None \<Rightarrow> None | Some s \<Rightarrow> if s = [] then None else Some s)"

definition search_query :: "search_req \<Rightarrow> error + listings_query" where
  "search_query rq =
     (let page = parseInt_or (q_page rq) 1;
          limit = parseInt_or (q_limit rq) 24;
          sort = (case nonempty (q_sort rq) of None \<Rightarrow> ''newest'' | Some s \<Rightarrow> s);
          search = map_option trim (q_search rq);
          category = q_category rq
      in if page < 1 \<or> limit < 1 \<or> limit > 100 then
           Inl (ValidationError ''Invalid page or limit'')
         else
           Inr \<lparr>page_no = page, limit_no = limit, offset_no = (page - 1) * limit,
                orderBy = (if sort = ''price-high'' then PriceDesc
                           else if sort = ''price-low'' then PriceAsc
                           else CreatedDesc),
                where_search = nonempty search,
                where_category = (case nonempty category of
                                    None \<Rightarrow> None
                                  | Some c \<Rightarrow> if c \<noteq> ''All'' then Some c else None)\<rparr>)"

definition where_ok :: "listings_query \<Rightarrow> row \<Rightarrow> bool" where
  "where_ok q l =
     (get l ''status'' = JStr ''approved''
      \<and> (case where_search q of
            None \<Rightarrow> True
          | Some s \<Rightarrow> ilike (get l ''title'') (''%'' @ s @ ''%'')
                      \<or> ilike (get l ''description'') (''%'' @ s @ ''%''))
      \<and> (case where_category q of
            None \<Rightarrow> True
          | Some c \<Rightarrow> get l ''category'' = JStr c))"

definition search_columns :: "string list" where
  "search_columns =
     [''id'', ''user_id'', ''title'', ''description'', ''price'', ''condition'',
      ''whatsapp_phone'', ''image_urls'', ''stock_quantity'', ''category'',
      ''average_rating'', ''rating_count'', ''variants'', ''created_at'']"

text \<open>The rows the \<^verbatim>\<open>WHERE\<close> clause selects, before sorting and paging.\<close>

definition search_rows :: "listings_query \<Rightarrow> db \<Rightarrow> row list" where
  "search_rows q d =
     map (\<lambda>lu. project search_columns (fst lu) @ project [''username'', ''shop_name''] (snd lu))
         (filter (\<lambda>lu. where_ok q (fst lu)) (join_users d))"

definition ceil_div :: "int \<Rightarrow> int \<Rightarrow> int" where
  "ceil_div a b = - ((- a) div b)"

definition search_listings :: "search_req \<Rightarrow> db \<Rightarrow> row list \<Rightarrow> error + search_response" where
  "search_listings rq d ordered =
     (case search_query rq of
        Inl e \<Rightarrow> Inl e
      | Inr q \<Rightarrow>
          let rows = take (nat (limit_no q)) (drop (nat (offset_no q)) ordered);
              total = int (length (filter (where_ok q) (listings d)))
          in Inr \<lparr>data = map cleanListing rows,
                  currentPage = page_no q,
                  totalPages = ceil_div total (limit_no q),
                  totalItems = total,
                  hasNext = (page_no q * limit_no q < total),
                  hasPrev = (page_no q > 1)\<rparr>)"

text \<open>The sorted sequences the store may hand to \<open>search_listings\<close>.\<close>

definition search_answer :: "search_req \<Rightarrow> db \<Rightarrow> row list \<Rightarrow> bool" where
  "search_answer rq d ordered =
     (case search_query rq of
        Inl e \<Rightarrow> True
      | Inr q \<Rightarrow> store_sorted (orderBy q) (search_rows q d) ordered)"

subsection \<open>\<^verbatim>\<open>GET /:id\<close>\<close>


subsection \<open>\<^verbatim>\<open>GET /user/:userId\<close>\<close>

text \<open>
  The requester is the identity of a bearer token that verified, \<open>None\<close> without a token
  or with one that did not verify. Only \<^verbatim>\<open>decoded.userId\<close> is read from it:
  \<^verbatim>\<open>const isOwner = currentUserId === parseInt(userId)\<close>.
\<close>

definition isOwner :: "identity option \<Rightarrow> string \<Rightarrow> bool" where
  "isOwner requester uid =
     (case requester of
        None \<Rightarrow> False
      | Some u \<Rightarrow> js_parseInt (Some uid) = Some (userId u))"

definition owner_columns :: "string list" where
  "owner_columns =
     [''id'', ''user_id'', ''title'', ''description'', ''price'', ''condition'',
      ''whatsapp_phone'', ''image_urls'', ''stock_quantity'', ''category'',
      ''average_rating'', ''rating_count'', ''status'', ''created_at'', ''variants'']"

definition owner_where :: "identity option \<Rightarrow> string \<Rightarrow> row \<Rightarrow> bool" where
  "owner_where requester uid l =
     (case pg_int uid of
        None \<Rightarrow> False
      | Some i \<Rightarrow> get l ''user_id'' = js_int i
                  \<and> (isOwner requester uid \<or> get l ''status'' = JStr ''approved''))"

definition owner_rows :: "identity option \<Rightarrow> string \<Rightarrow> db \<Rightarrow> row list" where
  "owner_rows requester uid d =
     map (project owner_columns) (filter (owner_where requester uid) (listings d))"

record owner_response =
  owner_count :: nat
  owner_data :: "row list"

definition listingsByOwner :: "identity option \<Rightarrow> string \<Rightarrow> row list \<Rightarrow> error + owner_response" where
  "listingsByOwner requester uid ordered =
     (case pg_int uid of
        None \<Rightarrow> Inl (StoreFailure ''Server error'')
      | Some i \<Rightarrow>
          let cleanedRows = map cleanListing ordered
          in Inr \<lparr>owner_count = length cleanedRows, owner_data = cleanedRows\<rparr>)"

definition owner_answer :: "identity option \<Rightarrow> string \<Rightarrow> db \<Rightarrow> row list \<Rightarrow> bool" where
  "owner_answer requester uid d ordered =
     store_sorted CreatedDesc (owner_rows requester uid d) ordered"

section \<open>The properties, as the specification words them\<close>

subsection \<open>Rating aggregates\<close>

text \<open>Rating identifiers are a primary key: no two rating rows share one.\<close>

definition ids_distinct :: "db \<Rightarrow> bool" where
  "ids_distinct d = distinct (map rating_id (ratings d))"

subsection \<open>Ownership\<close>




subsection \<open>Rejections of \<open>rate\<close>\<close>

text \<open>A value that is a number outside the range 1 to 5, and one that is a number within
  it.\<close>

definition number_outside_1_5 :: "jsval \<Rightarrow> bool" where
  "number_outside_1_5 x = (case x of JNum n \<Rightarrow> num_lt n (Fin 1) \<or> num_lt (Fin 5) n | _ \<Rightarrow> False)"

definition number_within_1_5 :: "jsval \<Rightarrow> bool" where
  "number_within_1_5 x =
     (case x of JNum n \<Rightarrow> (case n of Fin q \<Rightarrow> 1 \<le> q \<and> q \<le> 5 | _ \<Rightarrow> False) | _ \<Rightarrow> False)"

definition already_rated :: "identity \<Rightarrow> int \<Rightarrow> db \<Rightarrow> bool" where
  "already_rated user lid d =
     (filter (\<lambda>r. listing_id r = lid \<and> user_id r = userId user) (ratings d) \<noteq> [])"

definition listing_exists :: "int \<Rightarrow> db \<Rightarrow> bool" where
  "listing_exists lid d = (filter (has_id lid) (listings d) \<noteq> [])"

subsection \<open>The order claimed for price-low\<close>

text \<open>Price ascending, and among equal prices the creation time descending.\<close>

definition claimed_low :: "row \<Rightarrow> row \<Rightarrow> bool" where
  "claimed_low a b =
     (num_lt (col_num a ''price'') (col_num b ''price'')
      \<or> (col_num a ''price'' = col_num b ''price''
          \<and> num_le (col_num b ''created_at'') (col_num a ''created_at'')))"

subsection \<open>The patch whitelist\<close>

text \<open>The whitelist as the specification lists it, with contactHandle, images and
  stockQuantity under their column names; a body without any key of a list; a body cut
  down to the allowed keys.\<close>

definition spec_whitelist :: "string list" where
  "spec_whitelist =
     [''title'', ''description'', ''price'', ''condition'', ''whatsapp_phone'', ''image_urls'',
      ''stock_quantity'', ''category'', ''variants'']"

definition no_key_of :: "string list \<Rightarrow> jsobj \<Rightarrow> bool" where
  "no_key_of keys body = list_all (\<lambda>k. get body k = JUndefined) keys"

definition only_allowed :: "jsobj \<Rightarrow> jsobj" where
  "only_allowed body = filter (\<lambda>kv. fst kv \<in> set allowedFields) body"

subsection \<open>Variants of the expected shape\<close>

text \<open>A variant is plain when it is an object whose \<^verbatim>\<open>color\<close> and \<^verbatim>\<open>size\<close> are strings,
  \<^verbatim>\<open>null\<close> or absent; it conforms when one of the two is non-empty after trimming and its
  \<^verbatim>\<open>stock\<close> coerces to a number that is at least 0.\<close>

definition text_or_absent :: "jsval \<Rightarrow> bool" where
  "text_or_absent x = (case x of JStr s \<Rightarrow> True | JUndefined \<Rightarrow> True | JNull \<Rightarrow> True | _ \<Rightarrow> False)"

definition plain_variant :: "jsval \<Rightarrow> bool" where
  "plain_variant v =
     (case v of JObj ps \<Rightarrow> text_or_absent (get ps ''color'') \<and> text_or_absent (get ps ''size'')
      | _ \<Rightarrow> False)"

definition text_of :: "jsval \<Rightarrow> string" where
  "text_of x = (case x of JStr s \<Rightarrow> s | _ \<Rightarrow> [])"

definition conforming :: "jsval \<Rightarrow> bool" where
  "conforming v =
     (case v of
        JObj ps \<Rightarrow> (trim (text_of (get ps ''color'')) \<noteq> [] \<or> trim (text_of (get ps ''size'')) \<noteq> [])
                   \<and> js_ge (get ps ''stock'') 0
      | _ \<Rightarrow> False)"

subsection \<open>Shape of a returned listing\<close>






section \<open>Example data\<close>

text \<open>Five identities, the seller's user row, and a few small states of the store.\<close>

definition alice :: identity where "alice = \<lparr>userId = 11, role = ''user''\<rparr>"
definition bob :: identity where "bob = \<lparr>userId = 12, role = ''user''\<rparr>"
definition carol :: identity where "carol = \<lparr>userId = 13, role = ''user''\<rparr>"
definition seller :: identity where "seller = \<lparr>userId = 7, role = ''user''\<rparr>"
definition root :: identity where "root = \<lparr>userId = 1, role = ''admin''\<rparr>"

definition sam :: row where
  "sam = [(''id'', js_int 7), (''username'', JStr ''sam''), (''shop_name'', JNull)]"

text \<open>A shop with one approved listing, before and after ratings.\<close>

definition lamp :: row where
  "lamp = [(''id'', js_int 1), (''user_id'', js_int 7), (''title'', JStr ''Lamp''),
           (''description'', JNull), (''price'', JNum (Fin 10)), (''status'', JStr ''approved''),
           (''average_rating'', JNum (Fin 0)), (''rating_count'', js_int 0),
           (''created_at'', js_int 100)]"

definition shop :: db where
  "shop = \<lparr>listings = [lamp], ratings = [],
           users = [[(''id'', js_int 7), (''username'', JStr ''sam''), (''shop_name'', JNull)]]\<rparr>"

definition three_ratings :: "rating_op list" where
  "three_ratings =
     [Rate alice 1 [(''rating'', JNum (Fin 5))],
      Rate bob 1 [(''rating'', JNum (Fin 4))],
      Rate carol 1 [(''rating'', JNum (Fin 4))]]"

definition shop_rated :: db where
  "shop_rated =
     \<lparr>listings = [[(''id'', js_int 1), (''user_id'', js_int 7), (''title'', JStr ''Lamp''),
           (''description'', JNull), (''price'', JNum (Fin 10)), (''status'', JStr ''approved''),
           (''average_rating'', JNum (Fin (433 / 100))), (''rating_count'', js_int 3),
           (''created_at'', js_int 100)]],
      ratings = [\<lparr>rating_id = 1, listing_id = 1, user_id = 11, rating = 5, comment = JNull\<rparr>,
                 \<lparr>rating_id = 2, listing_id = 1, user_id = 12, rating = 4, comment = JNull\<rparr>,
                 \<lparr>rating_id = 3, listing_id = 1, user_id = 13, rating = 4, comment = JNull\<rparr>],
      users = [[(''id'', js_int 7), (''username'', JStr ''sam''), (''shop_name'', JNull)]]\<rparr>"

definition shop_once :: db where
  "shop_once =
     \<lparr>listings = [[(''id'', js_int 1), (''user_id'', js_int 7), (''title'', JStr ''Lamp''),
           (''description'', JNull), (''price'', JNum (Fin 10)), (''status'', JStr ''approved''),
           (''average_rating'', JNum (Fin 5)), (''rating_count'', js_int 1),
           (''created_at'', js_int 100)]],
      ratings = [\<lparr>rating_id = 1, listing_id = 1, user_id = 11, rating = 5, comment = JNull\<rparr>],
      users = [[(''id'', js_int 7), (''username'', JStr ''sam''), (''shop_name'', JNull)]]\<rparr>"

definition rated_ok :: jsobj where
  "rated_ok = [(''message'', JStr ''Rating submitted successfully'')]"


text \<open>The same shop after two patches by its owner.\<close>

definition priced_body :: jsobj where
  "priced_body = [(''price'', JStr ''12.5''), (''bogus'', JNum (Fin 1))]"

definition lamp_priced :: row where
  "lamp_priced = [(''id'', js_int 1), (''user_id'', js_int 7), (''title'', JStr ''Lamp''),
           (''description'', JNull), (''price'', JNum (Fin (25 / 2))),
           (''status'', JStr ''approved''),
           (''average_rating'', JNum (Fin 0)), (''rating_count'', js_int 0),
           (''created_at'', js_int 100)]"

definition shop_priced :: db where
  "shop_priced = \<lparr>listings = [lamp_priced], ratings = [],
      users = [[(''id'', js_int 7), (''username'', JStr ''sam''), (''shop_name'', JNull)]]\<rparr>"

definition lamp_pictured :: row where
  "lamp_pictured = lamp @ [(''image_url'', JStr ''x'')]"

definition shop_pictured :: db where
  "shop_pictured = \<lparr>listings = [lamp_pictured], ratings = [],
      users = [[(''id'', js_int 7), (''username'', JStr ''sam''), (''shop_name'', JNull)]]\<rparr>"

text \<open>A listing whose stored values are not what \<^verbatim>\<open>cleanListing\<close> returns: a price held
  as text, aggregates that are \<^verbatim>\<open>NULL\<close> or no number, no stock, and no arrays.\<close>

definition trunk :: row where
  "trunk = [(''id'', js_int 2), (''user_id'', js_int 7), (''title'', JStr ''Trunk''),
            (''description'', JNull), (''price'', JStr ''12.50''), (''status'', JStr ''approved''),
            (''average_rating'', JNull), (''rating_count'', JStr ''three''),
            (''image_urls'', JNull), (''variants'', JObj []), (''created_at'', js_int 200)]"

definition attic :: db where
  "attic = \<lparr>listings = [trunk], ratings = [], users = [sam]\<rparr>"

definition plain_req :: search_req where
  "plain_req = \<lparr>q_page = None, q_limit = None, q_sort = None, q_search = None, q_category = None\<rparr>"

definition trunk_found :: row where
  "trunk_found = project search_columns trunk @ project [''username'', ''shop_name''] sam"

definition trunk_page :: search_response where
  "trunk_page = \<lparr>data = [cleanListing trunk_found], currentPage = 1, totalPages = 1,
                  totalItems = 1, hasNext = False, hasPrev = False\<rparr>"


text \<open>A seller with an approved and a pending listing.\<close>

definition stool :: row where
  "stool = [(''id'', js_int 3), (''user_id'', js_int 7), (''title'', JStr ''Stool''),
            (''description'', JNull), (''price'', JNum (Fin 4)), (''status'', JStr ''pending''),
            (''average_rating'', JNum (Fin 0)), (''rating_count'', js_int 0),
            (''created_at'', js_int 300)]"

definition yard :: db where
  "yard = \<lparr>listings = [lamp, stool], ratings = [], users = [sam]\<rparr>"

definition yard_approved :: db where
  "yard_approved =
     \<lparr>listings = [lamp,
        [(''id'', js_int 3), (''user_id'', js_int 7), (''title'', JStr ''Stool''),
         (''description'', JNull), (''price'', JNum (Fin 4)), (''status'', JStr ''approved''),
         (''average_rating'', JNum (Fin 0)), (''rating_count'', js_int 0),
         (''created_at'', js_int 300)]],
      ratings = [], users = [sam]\<rparr>"

text \<open>Two listings of equal price and a dearer one.\<close>

definition mug_old :: row where
  "mug_old = [(''id'', js_int 4), (''user_id'', js_int 7), (''title'', JStr ''Mug''),
              (''description'', JNull), (''price'', JNum (Fin 5)), (''status'', JStr ''approved''),
              (''average_rating'', JNum (Fin 0)), (''rating_count'', js_int 0),
              (''created_at'', js_int 100)]"

definition mug_new :: row where
  "mug_new = [(''id'', js_int 5), (''user_id'', js_int 7), (''title'', JStr ''Mug''),
              (''description'', JNull), (''price'', JNum (Fin 5)), (''status'', JStr ''approved''),
              (''average_rating'', JNum (Fin 0)), (''rating_count'', js_int 0),
              (''created_at'', js_int 200)]"

definition vase :: row where
  "vase = [(''id'', js_int 6), (''user_id'', js_int 7), (''title'', JStr ''Vase''),
           (''description'', JNull), (''price'', JNum (Fin 8)), (''status'', JStr ''approved''),
           (''average_rating'', JNum (Fin 0)), (''rating_count'', js_int 0),
           (''created_at'', js_int 150)]"

definition shelf :: db where
  "shelf = \<lparr>listings = [mug_old, mug_new, vase], ratings = [], users = [sam]\<rparr>"

definition found :: "row \<Rightarrow> row" where
  "found l = project search_columns l @ project [''username'', ''shop_name''] sam"

definition low_req :: search_req where
  "low_req = plain_req\<lparr>q_sort := Some ''price-low''\<rparr>"

definition high_req :: search_req where
  "high_req = plain_req\<lparr>q_sort := Some ''price-high''\<rparr>"

definition page_of :: "row list \<Rightarrow> search_response" where
  "page_of rows = \<lparr>data = map cleanListing rows, currentPage = 1, totalPages = 1,
                    totalItems = 3, hasNext = False, hasPrev = False\<rparr>"

text \<open>A request to create a listing whose variant list holds \<^verbatim>\<open>null\<close>.\<close>

definition null_variant_body :: jsobj where
  "null_variant_body =
     [(''title'', JStr ''Mug''), (''price'', JNum (Fin 3)), (''variants'', JArr [JNull])]"

section \<open>Basic facts about rows\<close>

lemma get_set_prop: "get (set_prop k v ps) k' = (if k' = k then v else get ps k')"
  by (simp add: get_def set_prop_def update_conv')

lemma js_int_inj [simp]: "(js_int a = js_int b) = (a = b)"
  by (simp add: js_int_def)

lemma has_id_set_prop: "k \<noteq> ''id'' \<Longrightarrow> has_id i (set_prop k v r) = has_id i r"
  by (simp add: has_id_def get_set_prop)

lemma has_id_unique: "has_id i r \<Longrightarrow> has_id j r \<Longrightarrow> i = j"
  by (simp add: has_id_def)

lemma filter_update_where_same:
  assumes "\<And>r. p (f r) = p r"
  shows "filter p (update_where p f rows) = map f (filter p rows)"
  using assms by (induction rows) (auto simp: update_where_def)

lemma filter_update_where_other:
  assumes "\<And>r. p r \<Longrightarrow> \<not> q r" and "\<And>r. p r \<Longrightarrow> \<not> q (f r)"
  shows "filter q (update_where p f rows) = filter q rows"
  using assms by (induction rows) (auto simp: update_where_def)

lemma number_or_0_eq:
  "number_or_0 x = JNum (if js_Number x = NaN then Fin 0 else js_Number x)"
  by (simp add: number_or_0_def js_or_def)

section \<open>Claim C1: the rating aggregates\<close>

lemma foldr_max_ge: "x \<in> set xs \<Longrightarrow> x \<le> foldr max xs (0::int)"
  by (induction xs) auto

lemma fresh_rating_id_new: "fresh_rating_id rs \<notin> rating_id ` set rs"
proof
  assume "fresh_rating_id rs \<in> rating_id ` set rs"
  then have "fresh_rating_id rs \<le> foldr max (map rating_id rs) 0"
    by (intro foldr_max_ge) simp
  then show False by (simp add: fresh_rating_id_def)
qed

lemma rate_success:
  assumes "rate user lid body d = (Inr ok, d')"
  obtains v avg where
    "pg_integer (get body ''rating'') = Some v"
    "avg_numeric_3_2 (ratings_of lid d @ [v]) = Some avg"
    "ratings d' = ratings d @ [\<lparr>rating_id = fresh_rating_id (ratings d), listing_id = lid,
                              user_id = userId user, rating = v,
                              comment = js_or (get body ''comment'') JNull\<rparr>]"
    "listings d' = update_where (has_id lid)
       (\<lambda>r. set_prop ''average_rating'' avg
              (set_prop ''rating_count'' (sql_plus1 (get r ''rating_count'')) r)) (listings d)"
  using assms
  by (auto simp: rate_def Let_def ratings_of_def split: if_splits option.splits)


lemma sql_plus1_js_int: "sql_plus1 (js_int n) = js_int (n + 1)"
  by (simp add: sql_plus1_def js_int_def)

lemma avg_nonempty:
  "vs \<noteq> [] \<Longrightarrow> avg_numeric_3_2 vs = Some avg \<Longrightarrow> avg = mean_3_2 vs"
  by (auto simp: avg_numeric_3_2_def mean_3_2_def split: if_splits)

lemma avg_coalesce:
  "avg_numeric_3_2 vs = Some avg \<Longrightarrow> coalesce avg (JNum (Fin 0)) = mean_3_2 vs"
  by (auto simp: avg_numeric_3_2_def mean_3_2_def coalesce_def split: if_splits)

lemma rate_keeps_agg:
  assumes ok: "rate user lid body d = (Inr ok, d')" and inv: "agg_rounded d k"
  shows "agg_rounded d' k"
proof -
  from ok obtain v avg where
    avg: "avg_numeric_3_2 (ratings_of lid d @ [v]) = Some avg"
    and rs: "ratings d' = ratings d @ [\<lparr>rating_id = fresh_rating_id (ratings d), listing_id = lid,
                              user_id = userId user, rating = v,
                              comment = js_or (get body ''comment'') JNull\<rparr>]"
    and ls: "listings d' = update_where (has_id lid)
       (\<lambda>r. set_prop ''average_rating'' avg
              (set_prop ''rating_count'' (sql_plus1 (get r ''rating_count'')) r)) (listings d)"
    by (rule rate_success)
  let ?f = "\<lambda>r. set_prop ''average_rating'' avg
              (set_prop ''rating_count'' (sql_plus1 (get r ''rating_count'')) r)"
  show ?thesis
  proof (cases "k = lid")
    case True
    have vs: "ratings_of lid d' = ratings_of lid d @ [v]"
      by (simp add: ratings_of_def rs)
    have rows: "filter (has_id lid) (listings d') = map ?f (filter (has_id lid) (listings d))"
      unfolding ls by (rule filter_update_where_same) (simp add: has_id_set_prop)
    have "row_agg_rounded (ratings_of lid d @ [v]) (?f r)"
      if "row_agg_rounded (ratings_of lid d) r" for r
      using that avg_nonempty[OF _ avg]
      by (simp add: row_agg_rounded_def get_set_prop sql_plus1_js_int)
    with inv show ?thesis
      unfolding agg_rounded_def True vs rows by (auto simp: list_all_iff)
  next
    case False
    have vs: "ratings_of k d' = ratings_of k d"
      using False by (simp add: ratings_of_def rs)
    have rows: "filter (has_id k) (listings d') = filter (has_id k) (listings d)"
      unfolding ls using False
      by (intro filter_update_where_other) (auto simp: has_id_set_prop dest: has_id_unique)
    from inv show ?thesis by (simp add: agg_rounded_def vs rows)
  qed
qed

lemma rate_keeps_ids:
  assumes ok: "rate user lid body d = (Inr ok, d')" and inv: "ids_distinct d"
  shows "ids_distinct d'"
proof -
  from ok obtain v where
    "ratings d' = ratings d @ [\<lparr>rating_id = fresh_rating_id (ratings d), listing_id = lid,
                              user_id = userId user, rating = v,
                              comment = js_or (get body ''comment'') JNull\<rparr>]"
    by (rule rate_success)
  with inv fresh_rating_id_new[of "ratings d"] show ?thesis
    by (simp add: ids_distinct_def)
qed

lemma deleteRating_success:
  assumes "deleteRating user rid d = (Inr ok, d')"
  obtains r avg where
    "r \<in> set (ratings d)" "rating_id r = rid"
    "avg_numeric_3_2 (map rating (filter (\<lambda>x. listing_id x = listing_id r)
        (filter (\<lambda>x. rating_id x \<noteq> rid) (ratings d)))) = Some avg"
    "ratings d' = filter (\<lambda>x. rating_id x \<noteq> rid) (ratings d)"
    "listings d' = update_where (has_id (listing_id r))
       (\<lambda>l. set_prop ''average_rating'' (coalesce avg (JNum (Fin 0)))
              (set_prop ''rating_count''
                 (js_int (int (length (map rating (filter (\<lambda>x. listing_id x = listing_id r)
                    (filter (\<lambda>x. rating_id x \<noteq> rid) (ratings d))))))) l)) (listings d)"
proof -
  let ?infos = "concat (map (\<lambda>r. map (\<lambda>l. (listing_id r, get l ''user_id''))
                                 (filter (has_id (listing_id r)) (listings d)))
                       (filter (\<lambda>r. rating_id r = rid) (ratings d)))"
  from assms obtain info rest where infos: "?infos = info # rest"
    by (cases ?infos) (auto simp: deleteRating_def)
  then have "info \<in> set ?infos" by simp
  then obtain r where r: "r \<in> set (ratings d)" "rating_id r = rid" "fst info = listing_id r"
    by auto
  from assms infos r(3) that[OF r(1,2)] show ?thesis
    by (auto simp: deleteRating_def Let_def ratings_of_def split: if_splits option.splits)
qed


lemma deleteRating_keeps_agg:
  assumes ok: "deleteRating user rid d = (Inr ok, d')"
    and ids: "ids_distinct d" and inv: "agg_rounded d k"
  shows "agg_rounded d' k"
proof -
  from ok obtain r avg where r: "r \<in> set (ratings d)" "rating_id r = rid"
    and avg: "avg_numeric_3_2 (map rating (filter (\<lambda>x. listing_id x = listing_id r)
        (filter (\<lambda>x. rating_id x \<noteq> rid) (ratings d)))) = Some avg"
    and rs: "ratings d' = filter (\<lambda>x. rating_id x \<noteq> rid) (ratings d)"
    and ls: "listings d' = update_where (has_id (listing_id r))
       (\<lambda>l. set_prop ''average_rating'' (coalesce avg (JNum (Fin 0)))
              (set_prop ''rating_count''
                 (js_int (int (length (map rating (filter (\<lambda>x. listing_id x = listing_id r)
                    (filter (\<lambda>x. rating_id x \<noteq> rid) (ratings d))))))) l)) (listings d)"
    by (rule deleteRating_success)
  let ?vs = "map rating (filter (\<lambda>x. listing_id x = listing_id r)
        (filter (\<lambda>x. rating_id x \<noteq> rid) (ratings d)))"
  let ?f = "\<lambda>l. set_prop ''average_rating'' (coalesce avg (JNum (Fin 0)))
              (set_prop ''rating_count'' (js_int (int (length ?vs))) l)"
  show ?thesis
  proof (cases "k = listing_id r")
    case True
    have vs: "ratings_of k d' = ?vs"
      by (simp add: ratings_of_def rs True)
    have rows: "filter (has_id k) (listings d') = map ?f (filter (has_id k) (listings d))"
      unfolding ls True by (rule filter_update_where_same) (simp add: has_id_set_prop)
    have "row_agg_rounded ?vs (?f l)" for l
      using avg_coalesce[OF avg] by (simp add: row_agg_rounded_def get_set_prop)
    then show ?thesis
      unfolding agg_rounded_def vs rows by (simp add: list_all_iff)
  next
    case False
    have same: "x = r" if "x \<in> set (ratings d)" "rating_id x = rid" for x
      using ids that r by (auto simp: ids_distinct_def distinct_map dest: inj_onD)
    have "filter (\<lambda>x. listing_id x = k) (filter (\<lambda>x. rating_id x \<noteq> rid) (ratings d))
          = filter (\<lambda>x. listing_id x = k) (ratings d)"
      unfolding filter_filter by (rule filter_cong) (use False same in auto)
    then have vs: "ratings_of k d' = ratings_of k d"
      by (simp add: ratings_of_def rs)
    have rows: "filter (has_id k) (listings d') = filter (has_id k) (listings d)"
      unfolding ls using False
      by (intro filter_update_where_other) (auto simp: has_id_set_prop dest: has_id_unique)
    from inv show ?thesis by (simp add: agg_rounded_def vs rows)
  qed
qed

lemma deleteRating_keeps_ids:
  assumes ok: "deleteRating user rid d = (Inr ok, d')" and inv: "ids_distinct d"
  shows "ids_distinct d'"
proof -
  from ok have "ratings d' = filter (\<lambda>x. rating_id x \<noteq> rid) (ratings d)"
    by (rule deleteRating_success)
  with inv show ?thesis
    by (simp add: ids_distinct_def distinct_map_filter)
qed

lemma step_keeps:
  assumes "step opn d = (Inr ok, d')" "ids_distinct d" "agg_rounded d k"
  shows "ids_distinct d' \<and> agg_rounded d' k"
  using assms
  by (cases opn)
     (auto intro: rate_keeps_agg rate_keeps_ids deleteRating_keeps_agg deleteRating_keeps_ids)

text \<open>
  Claim C1, as the code has it. Starting from a state in which rating identifiers are
  distinct and the aggregates of listing \<open>k\<close> are consistent, after any sequence of
  successful \<open>rate\<close> and \<open>deleteRating\<close> operations (on any listings) the stored
  \<^verbatim>\<open>rating_count\<close> of \<open>k\<close> is the number of its rating rows, and the stored
  \<^verbatim>\<open>average_rating\<close> is the mean of their values rounded to two decimals, 0 when no
  rating remains.
\<close>

theorem rating_aggregates_rounded:
  assumes "ids_distinct d" and "agg_rounded d k" and "run_ops d ops = Some d'"
  shows "agg_rounded d' k"
proof -
  have "ids_distinct d' \<and> agg_rounded d' k"
    using assms
  proof (induction ops arbitrary: d)
    case Nil
    then show ?case by simp
  next
    case (Cons opn ops)
    from Cons.prems(3) obtain ok d1 where s: "step opn d = (Inr ok, d1)"
      and r: "run_ops d1 ops = Some d'"
      by (auto split: prod.splits sum.splits)
    from step_keeps[OF s Cons.prems(1,2)] Cons.IH[OF _ _ r] show ?case by blast
  qed
  then show ?thesis ..
qed

text \<open>The shop with one listing and no rating, and three ratings of 5, 4 and 4.\<close>

theorem rating_aggregates_rounded_witness:
  "ids_distinct shop \<and> agg_rounded shop 1 \<and> run_ops shop three_ratings = Some shop_rated
   \<and> agg_rounded shop_rated 1"
proof -
  have a: "ids_distinct shop" by code_simp
  have b: "agg_rounded shop 1" by code_simp
  have c: "run_ops shop three_ratings = Some shop_rated" by code_simp
  from a b c rating_aggregates_rounded[OF a b c] show ?thesis by simp
qed

text \<open>
  Claim C1, as stated, fails: after the ratings 5, 4 and 4 the stored average is 4.33 and
  not the arithmetic mean 13/3.
\<close>

theorem rating_mean_not_exact:
  "agg_exact shop 1 \<and> run_ops shop three_ratings = Some shop_rated \<and> \<not> agg_exact shop_rated 1"
  by code_simp

section \<open>Claim C2: moderation\<close>

text \<open>The handler answers a status other than the two with a validation error and a
  missing listing with \<open>NotFound\<close>, and it never looks at the acting identity.\<close>

lemma moderate_identity_irrelevant: "moderate u lid body d = moderate u' lid body d"
  by (simp add: moderate_def)

lemma moderate_invalid_status:
  "get body ''status'' \<noteq> JStr ''approved'' \<Longrightarrow> get body ''status'' \<noteq> JStr ''rejected'' \<Longrightarrow>
   moderate u lid body d = (Inl (ValidationError ''Invalid status value''), d)"
  by (simp add: moderate_def)

lemma moderate_missing:
  "get body ''status'' = JStr ''approved'' \<or> get body ''status'' = JStr ''rejected'' \<Longrightarrow>
   filter (has_id lid) (listings d) = [] \<Longrightarrow>
   moderate u lid body d = (Inl (NotFound ''Listing not found''), d)"
  by (auto simp: moderate_def)

text \<open>
  Claim C2 says that moderation by an identity whose role is not admin fails with a
  permission error and leaves the status unchanged. The code has no such check: a user of
  role \<^verbatim>\<open>user\<close> approves the pending listing 3, and the stored status changes.
\<close>

theorem moderate_by_ordinary_user:
  "role alice = ''user''
   \<and> moderate alice 3 [(''status'', JStr ''approved'')] yard
       = (Inr [(''message'', JStr ''Listing approved''),
               (''data'', JObj [(''id'', js_int 3), (''title'', JStr ''Stool''),
                                (''status'', JStr ''approved'')])],
          yard_approved)"
  by code_simp

section \<open>Claim C3: who may patch and who may delete\<close>









section \<open>Claim C4: rejections of \<open>rate\<close>\<close>

lemma outside_invalid: "number_outside_1_5 x \<Longrightarrow> rating_invalid x"
  by (auto simp: number_outside_1_5_def rating_invalid_def js_lt_def js_gt_def split: jsval.splits)

lemma within_valid: "number_within_1_5 x \<Longrightarrow> \<not> rating_invalid x"
  by (auto simp: number_within_1_5_def rating_invalid_def js_lt_def js_gt_def
      split: jsval.splits jsnum.splits)

lemma rate_invalid:
  "rating_invalid (get body ''rating'') \<Longrightarrow>
   rate user lid body d = (Inl (ValidationError ''Rating must be between 1 and 5''), d)"
  by (simp add: rate_def)

lemma rate_missing:
  "\<not> rating_invalid (get body ''rating'') \<Longrightarrow> \<not> listing_exists lid d \<Longrightarrow>
   rate user lid body d = (Inl (NotFound ''Listing not found''), d)"
  by (simp add: rate_def listing_exists_def)

lemma rate_duplicate:
  "\<not> rating_invalid (get body ''rating'') \<Longrightarrow> listing_exists lid d \<Longrightarrow>
   already_rated user lid d \<Longrightarrow>
   rate user lid body d = (Inl (ValidationError ''You have already rated this listing''), d)"
  by (simp add: rate_def listing_exists_def already_rated_def)

lemma rate_success_then:
  assumes "rate user lid body d = (Inr ok, d')"
  shows "listing_exists lid d' \<and> already_rated user lid d'"
proof -
  from assms obtain v avg where
    ex: "filter (has_id lid) (listings d) \<noteq> []"
    and rs: "ratings d' = ratings d @ [\<lparr>rating_id = fresh_rating_id (ratings d), listing_id = lid,
                              user_id = userId user, rating = v,
                              comment = js_or (get body ''comment'') JNull\<rparr>]"
    and ls: "listings d' = update_where (has_id lid)
       (\<lambda>r. set_prop ''average_rating'' avg
              (set_prop ''rating_count'' (sql_plus1 (get r ''rating_count'')) r)) (listings d)"
    by (auto simp: rate_def Let_def split: if_splits option.splits)
  have "filter (has_id lid) (listings d') \<noteq> []"
    unfolding ls using ex by (subst filter_update_where_same) (simp_all add: has_id_set_prop)
  then show ?thesis by (simp add: listing_exists_def already_rated_def rs)
qed

text \<open>
  Claim C4. \<open>rate\<close> answers a number outside 1 to 5 with a validation error; a value in
  range for a listing that does not exist with \<open>NotFound\<close>; a value in range for an
  existing listing the user has rated already with the duplicate validation error; each
  time the state is returned as it was, so no rating row is inserted and the aggregates
  stay. After a successful \<open>rate\<close>, a second one by the same user on the same listing,
  whatever its body, is a validation error that leaves the state, and so the count, alone,
  and it is the duplicate error when the value is in range.
  The range check comes first, then the listing, then the duplicate.
\<close>

theorem rate_rejections:
  "(number_outside_1_5 (get body ''rating'') \<longrightarrow>
      rate user lid body d = (Inl (ValidationError ''Rating must be between 1 and 5''), d))
   \<and> (number_within_1_5 (get body ''rating'') \<and> \<not> listing_exists lid d \<longrightarrow>
      rate user lid body d = (Inl (NotFound ''Listing not found''), d))
   \<and> (number_within_1_5 (get body ''rating'') \<and> listing_exists lid d \<and> already_rated user lid d \<longrightarrow>
      rate user lid body d = (Inl (ValidationError ''You have already rated this listing''), d))
   \<and> (rate user lid body d = (Inr ok, d') \<longrightarrow>
      (\<exists>msg. rate user lid again d' = (Inl (ValidationError msg), d'))
      \<and> (number_within_1_5 (get again ''rating'') \<longrightarrow>
           rate user lid again d'
           = (Inl (ValidationError ''You have already rated this listing''), d')))"
proof (intro conjI impI)
  assume "rate user lid body d = (Inr ok, d')"
  then have *: "listing_exists lid d'" "already_rated user lid d'"
    using rate_success_then by blast+
  show "\<exists>msg. rate user lid again d' = (Inl (ValidationError msg), d')"
  proof (cases "rating_invalid (get again ''rating'')")
    case True
    then show ?thesis using rate_invalid by blast
  next
    case False
    then show ?thesis using rate_duplicate * by blast
  qed
  assume "number_within_1_5 (get again ''rating'')"
  then show "rate user lid again d'
           = (Inl (ValidationError ''You have already rated this listing''), d')"
    using * by (simp add: within_valid rate_duplicate)
qed (auto simp: outside_invalid within_valid rate_invalid rate_missing rate_duplicate)

text \<open>A rating of 9; a rating of 3 on a listing that does not exist; a rating of 3 by
  a user who has rated; and a second rating after a first one that succeeded.\<close>

theorem rate_rejections_witness:
  "number_outside_1_5 (get [(''rating'', JNum (Fin 9))] ''rating'')
   \<and> rate alice 1 [(''rating'', JNum (Fin 9))] shop
       = (Inl (ValidationError ''Rating must be between 1 and 5''), shop)
   \<and> number_within_1_5 (get [(''rating'', JNum (Fin 3))] ''rating'')
   \<and> \<not> listing_exists 2 shop
   \<and> rate alice 2 [(''rating'', JNum (Fin 3))] shop = (Inl (NotFound ''Listing not found''), shop)
   \<and> listing_exists 1 shop_once \<and> already_rated alice 1 shop_once
   \<and> rate alice 1 [(''rating'', JNum (Fin 3))] shop_once
       = (Inl (ValidationError ''You have already rated this listing''), shop_once)
   \<and> rate alice 1 [(''rating'', JNum (Fin 5))] shop = (Inr rated_ok, shop_once)
   \<and> number_within_1_5 (get [(''rating'', JNum (Fin 4))] ''rating'')
   \<and> rate alice 1 [(''rating'', JNum (Fin 4))] shop_once
       = (Inl (ValidationError ''You have already rated this listing''), shop_once)"
proof -
  have h1: "number_outside_1_5 (get [(''rating'', JNum (Fin 9))] ''rating'')" by code_simp
  have h2: "number_within_1_5 (get [(''rating'', JNum (Fin 3))] ''rating'')" by code_simp
  have h3: "\<not> listing_exists 2 shop" by code_simp
  have h4: "listing_exists 1 shop_once" by code_simp
  have h5: "already_rated alice 1 shop_once" by code_simp
  have h6: "rate alice 1 [(''rating'', JNum (Fin 5))] shop = (Inr rated_ok, shop_once)"
    by code_simp
  note c1 = rate_rejections[THEN conjunct1, THEN mp, OF h1]
  note c2 = rate_rejections[THEN conjunct2, THEN conjunct1, THEN mp, OF conjI[OF h2 h3]]
  note c3 = rate_rejections[THEN conjunct2, THEN conjunct2, THEN conjunct1, THEN mp,
      OF conjI[OF h2 conjI[OF h4 h5]]]
  have h7: "number_within_1_5 (get [(''rating'', JNum (Fin 4))] ''rating'')" by code_simp
  note c4 = rate_rejections[THEN conjunct2, THEN conjunct2, THEN conjunct2, THEN mp, OF h6,
      THEN conjunct2, THEN mp, OF h7]
  show ?thesis
    by (intro conjI) (rule h1 c1 h2 h3 c2 h4 h5 c3 h6 h7 c4)+
qed

section \<open>Claim C5: the listings of one owner\<close>

text \<open>The role of the requester is never read, and whoever is not the owner gets
  approved listings only.\<close>

lemma isOwner_role_irrelevant:
  "userId u = userId u' \<Longrightarrow> isOwner (Some u) uid = isOwner (Some u') uid"
  by (simp add: isOwner_def)

lemma owner_where_role_irrelevant:
  "userId u = userId u' \<Longrightarrow> owner_where (Some u) uid l = owner_where (Some u') uid l"
  using isOwner_role_irrelevant[of u u' uid]
  by (simp add: owner_where_def split: option.splits)

lemma owner_where_owner:
  "isOwner requester uid \<Longrightarrow> pg_int uid = Some i \<Longrightarrow>
   owner_where requester uid l = (get l ''user_id'' = js_int i)"
  by (simp add: owner_where_def)

lemma owner_where_not_owner:
  "\<not> isOwner requester uid \<Longrightarrow> owner_where requester uid l \<Longrightarrow> get l ''status'' = JStr ''approved''"
  by (auto simp: owner_where_def split: option.splits)

text \<open>
  Claim C5 says that the by-owner read mode returns the listings of all statuses when the
  requester is the owner or an admin. The code does so for the owner only: for user 7, who
  owns an approved and a pending listing, an admin is answered like an anonymous caller,
  with the approved listing alone, and the owner with both.
\<close>

theorem admin_gets_only_approved_of_owner:
  "role root = ''admin''
   \<and> owner_rows (Some root) ''7'' yard = [project owner_columns lamp]
   \<and> owner_rows None ''7'' yard = [project owner_columns lamp]
   \<and> owner_rows (Some seller) ''7'' yard = [project owner_columns lamp, project owner_columns stool]
   \<and> owner_answer (Some root) ''7'' yard [project owner_columns lamp]
   \<and> listingsByOwner (Some root) ''7'' [project owner_columns lamp]
       = Inr \<lparr>owner_count = 1, owner_data = [cleanListing (project owner_columns lamp)]\<rparr>"
  by code_simp

section \<open>Claim C6: page and limit\<close>

text \<open>A page or a limit below 1, or a limit above 100, is rejected once it has passed
  \<^verbatim>\<open>parseInt(x) || d\<close>; a negative number does, and 0 never comes out of it.\<close>

lemma search_query_rejects:
  "parseInt_or (q_page rq) 1 < 1 \<or> parseInt_or (q_limit rq) 24 < 1 \<or> 100 < parseInt_or (q_limit rq) 24
   \<Longrightarrow> search_listings rq d ordered = Inl (ValidationError ''Invalid page or limit'')"
  by (auto simp: search_listings_def search_query_def Let_def)

lemma parseInt_or_negative:
  "js_parseInt p = Some n \<Longrightarrow> n < 0 \<Longrightarrow> parseInt_or p dflt = n"
  by (simp add: parseInt_or_def)

lemma parseInt_or_never_zero: "dflt \<noteq> 0 \<Longrightarrow> parseInt_or p dflt \<noteq> 0"
  by (simp add: parseInt_or_def split: option.splits)

text \<open>
  Claim C6 says that \<^verbatim>\<open>page = 0\<close> and \<^verbatim>\<open>pageSize = 0\<close> are rejected with a validation
  failure. In the code 0 is falsy, so \<^verbatim>\<open>parseInt('0') || 1\<close> is 1 and
  \<^verbatim>\<open>parseInt('0') || 24\<close> is 24 before the bounds are checked: the request is served as
  page 1 with 24 items per page.
\<close>

theorem page_zero_is_served:
  "search_query (plain_req\<lparr>q_page := Some ''0''\<rparr>)
     = Inr \<lparr>page_no = 1, limit_no = 24, offset_no = 0, orderBy = CreatedDesc,
            where_search = None, where_category = None\<rparr>
   \<and> search_query (plain_req\<lparr>q_limit := Some ''0''\<rparr>)
     = Inr \<lparr>page_no = 1, limit_no = 24, offset_no = 0, orderBy = CreatedDesc,
            where_search = None, where_category = None\<rparr>
   \<and> search_listings (plain_req\<lparr>q_page := Some ''0'', q_limit := Some ''0''\<rparr>) attic [trunk_found]
     = Inr trunk_page"
  by code_simp

section \<open>Claim C7: the order of a page\<close>

lemma col_num_clean_price: "col_num (cleanListing r) ''price'' = col_num r ''price''"
  by (simp add: col_num_def cleanListing_def get_set_prop number_or_0_eq)

lemma col_num_clean_created: "col_num (cleanListing r) ''created_at'' = col_num r ''created_at''"
  by (simp add: col_num_def cleanListing_def get_set_prop)

lemma precedes_clean: "precedes ob (cleanListing a) (cleanListing b) = precedes ob a b"
  by (cases ob) (simp_all add: col_num_clean_price col_num_clean_created)

lemma search_page_sorted:
  assumes ans: "search_answer rq d ordered"
    and res: "search_listings rq d ordered = Inr resp"
    and q: "search_query rq = Inr q"
  shows "sorted_wrt (precedes (orderBy q)) (data resp)"
proof -
  from res q have resp:
    "data resp = map cleanListing (take (nat (limit_no q)) (drop (nat (offset_no q)) ordered))"
    by (auto simp: search_listings_def Let_def)
  from ans q have "sorted_wrt (precedes (orderBy q)) ordered"
    by (simp add: search_answer_def store_sorted_def)
  then have "sorted_wrt (precedes (orderBy q))
      (take (nat (limit_no q)) (drop (nat (offset_no q)) ordered))"
    by simp
  then show ?thesis
    by (simp add: resp sorted_wrt_map precedes_clean)
qed

lemma search_query_order:
  assumes "search_query rq = Inr q"
  shows "(q_sort rq = Some ''price-low'' \<longrightarrow> orderBy q = PriceAsc)
       \<and> (q_sort rq = Some ''price-high'' \<longrightarrow> orderBy q = PriceDesc)"
  using assms by (auto simp: search_query_def Let_def nonempty_def split: if_splits)

text \<open>
  Claim C7, as the code has it. Whatever sorted sequence the store hands back, the page
  under \<^verbatim>\<open>price-low\<close> is ordered by price ascending, so that the price of each item is at
  most the price of the next one, and under \<^verbatim>\<open>price-high\<close> by price descending. The
  query has no second sort key: nothing is said about items of equal price.
\<close>

theorem price_order_of_page:
  "search_answer rq d ordered \<and> search_listings rq d ordered = Inr resp \<longrightarrow>
     (q_sort rq = Some ''price-low'' \<longrightarrow>
        sorted_wrt (precedes PriceAsc) (data resp)
        \<and> (\<forall>i. Suc i < length (data resp) \<longrightarrow>
              num_le (col_num (data resp ! i) ''price'') (col_num (data resp ! Suc i) ''price'')))
     \<and> (q_sort rq = Some ''price-high'' \<longrightarrow> sorted_wrt (precedes PriceDesc) (data resp))"
proof (intro impI, elim conjE)
  assume ans: "search_answer rq d ordered" and res: "search_listings rq d ordered = Inr resp"
  from res obtain q where q: "search_query rq = Inr q"
    by (auto simp: search_listings_def split: sum.splits)
  note s = search_page_sorted[OF ans res q] and o = search_query_order[OF q]
  have adj: "\<forall>i. Suc i < length (data resp) \<longrightarrow>
              num_le (col_num (data resp ! i) ''price'') (col_num (data resp ! Suc i) ''price'')"
    if "sorted_wrt (precedes PriceAsc) (data resp)"
    using that by (auto simp: sorted_wrt_iff_nth_less)
  from s o adj show "(q_sort rq = Some ''price-low'' \<longrightarrow>
        sorted_wrt (precedes PriceAsc) (data resp)
        \<and> (\<forall>i. Suc i < length (data resp) \<longrightarrow>
              num_le (col_num (data resp ! i) ''price'') (col_num (data resp ! Suc i) ''price'')))
     \<and> (q_sort rq = Some ''price-high'' \<longrightarrow> sorted_wrt (precedes PriceDesc) (data resp))"
    by metis
qed

text \<open>
  Claim C7, as stated, fails: with two listings of equal price the store may answer
  \<^verbatim>\<open>ORDER BY l.price ASC\<close> with either one first, so the order is not determined, and
  the page with the older one first is not ordered by creation time descending among
  equal prices.
\<close>

theorem price_ties_not_by_creation:
  "search_answer low_req shelf [found mug_old, found mug_new, found vase]
   \<and> search_answer low_req shelf [found mug_new, found mug_old, found vase]
   \<and> search_listings low_req shelf [found mug_old, found mug_new, found vase]
       = Inr (page_of [found mug_old, found mug_new, found vase])
   \<and> \<not> sorted_wrt claimed_low (data (page_of [found mug_old, found mug_new, found vase]))"
  by code_simp

text \<open>The three listings under \<^verbatim>\<open>price-low\<close> and under \<^verbatim>\<open>price-high\<close>.\<close>

theorem price_order_of_page_witness:
  "search_answer low_req shelf [found mug_old, found mug_new, found vase]
   \<and> search_listings low_req shelf [found mug_old, found mug_new, found vase]
       = Inr (page_of [found mug_old, found mug_new, found vase])
   \<and> q_sort low_req = Some ''price-low''
   \<and> sorted_wrt (precedes PriceAsc) (data (page_of [found mug_old, found mug_new, found vase]))
   \<and> search_answer high_req shelf [found vase, found mug_new, found mug_old]
   \<and> search_listings high_req shelf [found vase, found mug_new, found mug_old]
       = Inr (page_of [found vase, found mug_new, found mug_old])
   \<and> q_sort high_req = Some ''price-high''
   \<and> sorted_wrt (precedes PriceDesc) (data (page_of [found vase, found mug_new, found mug_old]))"
proof -
  have a1: "search_answer low_req shelf [found mug_old, found mug_new, found vase]"
    by code_simp
  have a2: "search_listings low_req shelf [found mug_old, found mug_new, found vase]
       = Inr (page_of [found mug_old, found mug_new, found vase])" by code_simp
  have a3: "q_sort low_req = Some ''price-low''" by code_simp
  have b1: "search_answer high_req shelf [found vase, found mug_new, found mug_old]"
    by code_simp
  have b2: "search_listings high_req shelf [found vase, found mug_new, found mug_old]
       = Inr (page_of [found vase, found mug_new, found mug_old])" by code_simp
  have b3: "q_sort high_req = Some ''price-high''" by code_simp
  note lo = price_order_of_page[THEN mp, OF conjI[OF a1 a2], THEN conjunct1, THEN mp, OF a3,
      THEN conjunct1]
  note hi = price_order_of_page[THEN mp, OF conjI[OF b1 b2], THEN conjunct2, THEN mp, OF b3]
  show ?thesis
    by (intro conjI) (rule a1 a2 a3 b1 b2 b3 lo hi)+
qed

section \<open>Claim C8: the patch whitelist\<close>

lemma collect_updates_keys: "fst ` set (collect_updates body) \<subseteq> set allowedFields"
  by (auto simp: collect_updates_def)

lemma set_prop_keys: "fst ` set (set_prop k v ps) = insert k (fst ` set ps)"
  by (simp add: set_prop_def dom_update)

lemma validate_price_keys:
  "validate_price u = Inr u' \<Longrightarrow> fst ` set u' \<subseteq> insert ''price'' (fst ` set u)"
proof -
  assume a: "validate_price u = Inr u'"
  show ?thesis
  proof (cases "has_key ''price'' u")
    case True
    with a have "u' = set_prop ''price'' (JNum (js_Number (get u ''price''))) u"
      by (simp add: validate_price_def Let_def split: if_splits)
    then show ?thesis by (simp add: set_prop_keys)
  next
    case False
    with a show ?thesis by (auto simp: validate_price_def)
  qed
qed

lemma validate_stock_keys:
  "validate_stock u = Inr u' \<Longrightarrow> fst ` set u' \<subseteq> insert ''stock_quantity'' (fst ` set u)"
proof -
  assume a: "validate_stock u = Inr u'"
  show ?thesis
  proof (cases "has_key ''stock_quantity'' u")
    case True
    with a have "u' = set_prop ''stock_quantity'' (JNum (js_Number (get u ''stock_quantity''))) u"
      by (simp add: validate_stock_def Let_def split: if_splits)
    then show ?thesis by (simp add: set_prop_keys)
  next
    case False
    with a show ?thesis by (auto simp: validate_stock_def)
  qed
qed

lemma build_values_keys: "build_values u = Inr vals \<Longrightarrow> map fst vals = map fst u"
proof (induction u arbitrary: vals)
  case Nil
  then show ?case by simp
next
  case (Cons kv u)
  obtain k v where kv: "kv = (k, v)" by (cases kv)
  from Cons.prems obtain rest w where "build_values u = Inr rest" "vals = (k, w) # rest"
    unfolding kv by (auto split: if_splits sum.splits)
  with Cons.IH show ?case by (simp add: kv)
qed

lemma get_apply_updates_other:
  "k \<notin> fst ` set vals \<Longrightarrow> get (apply_updates vals r) k = get r k"
  unfolding apply_updates_def
  by (induction vals arbitrary: r) (auto simp: get_set_prop)



lemma patch_success:
  assumes "patch user lid body d = (Inr out, d')"
  obtains vals where "fst ` set vals \<subseteq> set allowedFields"
    "d' = d\<lparr>listings := update_where (has_id lid) (apply_updates vals) (listings d)\<rparr>"
proof -
  from assms have ne: "collect_updates body \<noteq> []"
    by (auto simp: patch_def)
  with assms obtain u1 where u1: "validate_price (collect_updates body) = Inr u1"
    by (cases "validate_price (collect_updates body)") (auto simp: patch_def)
  with assms ne obtain u2 where u2: "validate_stock u1 = Inr u2"
    by (cases "validate_stock u1") (auto simp: patch_def)
  from assms ne u1 u2 obtain owned others where
    l: "filter (has_id lid) (listings d) = owned # others"
    by (cases "filter (has_id lid) (listings d)") (auto simp: patch_def)
  from assms ne u1 u2 l have own: "get owned ''user_id'' = js_int (userId user)"
    by (auto simp: patch_def split: if_splits)
  from assms ne u1 u2 l own obtain vals where vals: "build_values u2 = Inr vals"
    by (cases "build_values u2") (auto simp: patch_def)
  from assms ne u1 u2 l own vals
  have d': "d' = d\<lparr>listings := update_where (has_id lid) (apply_updates vals) (listings d)\<rparr>"
    by (auto simp: patch_def)
  have price: "''price'' \<in> set allowedFields" and stock: "''stock_quantity'' \<in> set allowedFields"
    by (simp_all add: allowedFields_def)
  have k0: "fst ` set (collect_updates body) \<subseteq> set allowedFields"
    by (rule collect_updates_keys)
  have k1: "fst ` set u1 \<subseteq> set allowedFields"
    using validate_price_keys[OF u1] k0 price by (meson insert_subset subset_trans)
  have k2: "fst ` set u2 \<subseteq> set allowedFields"
    using validate_stock_keys[OF u2] k1 stock by (meson insert_subset subset_trans)
  from build_values_keys[OF vals] have "set (map fst vals) = set (map fst u2)" by simp
  then have "fst ` set vals = fst ` set u2" by simp
  with k2 have "fst ` set vals \<subseteq> set allowedFields" by simp
  then show ?thesis using d' by (rule that)
qed
lemma id_not_allowed: "''id'' \<notin> set allowedFields"
  by (simp add: allowedFields_def)

lemma filter_update_where_not:
  assumes "\<And>r. p (f r) = p r"
  shows "filter (\<lambda>r. \<not> p r) (update_where p f rows) = filter (\<lambda>r. \<not> p r) rows"
  using assms by (induction rows) (auto simp: update_where_def)

lemma patch_frame:
  assumes ok: "patch user lid body d = (Inr out, d')"
  shows "ratings d' = ratings d" "users d' = users d"
    "k \<notin> set allowedFields \<Longrightarrow> map (\<lambda>r. get r k) (listings d') = map (\<lambda>r. get r k) (listings d)"
    "filter (\<lambda>r. \<not> has_id lid r) (listings d') = filter (\<lambda>r. \<not> has_id lid r) (listings d)"
proof -
  from ok obtain vals where keys: "fst ` set vals \<subseteq> set allowedFields"
    and d': "d' = d\<lparr>listings := update_where (has_id lid) (apply_updates vals) (listings d)\<rparr>"
    by (rule patch_success)
  show "ratings d' = ratings d" "users d' = users d" by (simp_all add: d')
  have other: "get (apply_updates vals r) j = get r j" if "j \<notin> set allowedFields" for r j
    using that keys by (intro get_apply_updates_other) blast
  show "map (\<lambda>r. get r k) (listings d') = map (\<lambda>r. get r k) (listings d)"
    if "k \<notin> set allowedFields"
    using other[OF that] by (simp add: d' update_where_def)
  have "has_id lid (apply_updates vals r) = has_id lid r" for r
    using other[OF id_not_allowed] by (simp add: has_id_def)
  then show "filter (\<lambda>r. \<not> has_id lid r) (listings d') = filter (\<lambda>r. \<not> has_id lid r) (listings d)"
    unfolding d' by (simp add: filter_update_where_not)
qed

lemma get_filter_keys:
  "k \<in> S \<Longrightarrow> get (filter (\<lambda>kv. fst kv \<in> S) body) k = get body k"
  by (induction body) (auto simp: get_def)

lemma collect_only_allowed: "collect_updates (only_allowed body) = collect_updates body"
proof -
  have eq: "get (only_allowed body) f = get body f" if "f \<in> set allowedFields" for f
    using that by (simp add: only_allowed_def get_filter_keys)
  have "map (\<lambda>f. (f, get (only_allowed body) f))
          (filter (\<lambda>f. get (only_allowed body) f \<noteq> JUndefined) fs)
        = map (\<lambda>f. (f, get body f)) (filter (\<lambda>f. get body f \<noteq> JUndefined) fs)"
    if "set fs \<subseteq> set allowedFields" for fs
    using that by (induction fs) (simp_all add: eq)
  from this[of allowedFields] show ?thesis
    by (simp add: collect_updates_def)
qed

lemma patch_only_allowed: "patch user lid (only_allowed body) d = patch user lid body d"
  by (simp add: patch_def collect_only_allowed)

lemma patch_nothing:
  assumes "no_key_of allowedFields body"
  shows "patch user lid body d = (Inl (ValidationError ''No valid fields provided for update''), d)"
proof -
  from assms have "filter (\<lambda>f. get body f \<noteq> JUndefined) allowedFields = []"
    by (simp add: no_key_of_def list_all_iff filter_empty_conv)
  then show ?thesis by (simp add: patch_def collect_updates_def)
qed


text \<open>
  Claim C8, as the code has it. The whitelist is \<open>allowedFields\<close>, ten columns:
  \<^verbatim>\<open>image_url\<close> is one of them, beside \<^verbatim>\<open>image_urls\<close>. A successful patch leaves every
  column outside the whitelist as it was in every row, leaves the rows of other listings,
  the ratings and the users alone; keys outside the whitelist are ignored, the patch being
  the one of the body cut down to the whitelisted keys; and a body without any whitelisted
  key is answered with the validation error, the state unchanged.
\<close>

theorem patch_whitelist:
  "(patch user lid body d = (Inr out, d') \<and> k \<notin> set allowedFields \<longrightarrow>
      ratings d' = ratings d \<and> users d' = users d
      \<and> map (\<lambda>r. get r k) (listings d') = map (\<lambda>r. get r k) (listings d)
      \<and> filter (\<lambda>r. \<not> has_id lid r) (listings d') = filter (\<lambda>r. \<not> has_id lid r) (listings d))
   \<and> patch user lid (only_allowed body) d = patch user lid body d
   \<and> (no_key_of allowedFields body \<longrightarrow>
        patch user lid body d
        = (Inl (ValidationError ''No valid fields provided for update''), d))"
proof (intro conjI impI)
  assume a: "patch user lid body d = (Inr out, d') \<and> k \<notin> set allowedFields"
  then have ok: "patch user lid body d = (Inr out, d')" and k: "k \<notin> set allowedFields"
    by simp_all
  show "ratings d' = ratings d" by (rule patch_frame(1)[OF ok])
  show "users d' = users d" by (rule patch_frame(2)[OF ok])
  show "map (\<lambda>r. get r k) (listings d') = map (\<lambda>r. get r k) (listings d)"
    by (rule patch_frame(3)[OF ok k])
  show "filter (\<lambda>r. \<not> has_id lid r) (listings d') = filter (\<lambda>r. \<not> has_id lid r) (listings d)"
    by (rule patch_frame(4)[OF ok])
next
  show "patch user lid (only_allowed body) d = patch user lid body d"
    by (rule patch_only_allowed)
next
  assume "no_key_of allowedFields body"
  then show "patch user lid body d
        = (Inl (ValidationError ''No valid fields provided for update''), d)"
    by (rule patch_nothing)
qed

text \<open>The owner patches the price, with an unknown key beside it: the status column
  stays; a body with the unknown key alone is refused.\<close>

theorem patch_whitelist_witness:
  "patch seller 1 priced_body shop = (Inr (cleanListing lamp_priced), shop_priced)
   \<and> ''status'' \<notin> set allowedFields
   \<and> map (\<lambda>r. get r ''status'') (listings shop_priced) = map (\<lambda>r. get r ''status'') (listings shop)
   \<and> patch seller 1 (only_allowed priced_body) shop = patch seller 1 priced_body shop
   \<and> no_key_of allowedFields [(''bogus'', JNum (Fin 1))]
   \<and> patch seller 1 [(''bogus'', JNum (Fin 1))] shop
       = (Inl (ValidationError ''No valid fields provided for update''), shop)"
proof -
  have p: "patch seller 1 priced_body shop = (Inr (cleanListing lamp_priced), shop_priced)"
    by code_simp
  have k: "''status'' \<notin> set allowedFields" by code_simp
  have n: "no_key_of allowedFields [(''bogus'', JNum (Fin 1))]" by code_simp
  note f = patch_whitelist[THEN conjunct1, THEN mp, OF conjI[OF p k], THEN conjunct2,
      THEN conjunct2, THEN conjunct1]
  note o = patch_whitelist[THEN conjunct2, THEN conjunct1]
  note e = patch_whitelist[THEN conjunct2, THEN conjunct2, THEN mp, OF n]
  show ?thesis
    by (intro conjI) (rule p k n f o e)+
qed

text \<open>
  Claim C8, as stated, fails: a body whose only key is \<^verbatim>\<open>image_url\<close> has none of the nine
  fields the claim lists, yet the patch succeeds and sets the column \<^verbatim>\<open>image_url\<close>.
\<close>

theorem patch_accepts_image_url:
  "no_key_of spec_whitelist [(''image_url'', JStr ''x'')]
   \<and> patch seller 1 [(''image_url'', JStr ''x'')] shop
       = (Inr (cleanListing lamp_pictured), shop_pictured)
   \<and> get lamp ''image_url'' = JUndefined
   \<and> get lamp_pictured ''image_url'' = JStr ''x''"
  by code_simp

section \<open>Claim C9: the variant filter\<close>

text \<open>On plain variants the filter raises nothing and keeps exactly the conforming
  ones.\<close>

lemma hasOption_plain:
  "plain_variant v \<Longrightarrow>
   hasOption v = Inr (case v of JObj ps \<Rightarrow> trim (text_of (get ps ''color'')) \<noteq> []
                                          \<or> trim (text_of (get ps ''size'')) \<noteq> [] | _ \<Rightarrow> False)"
  by (cases v)
     (auto simp: plain_variant_def text_or_absent_def hasOption_def trimmed_option_def prop_of_def
        call_trim_def js_or_def text_of_def trim_def split: jsval.splits)

lemma ge_not_NaN: "js_ge x 0 \<Longrightarrow> \<not> js_isNaN x"
  by (auto simp: js_ge_def js_isNaN_def num_le_def)

lemma keep_variant_plain: "plain_variant v \<Longrightarrow> keep_variant v = Inr (conforming v)"
  by (cases v)
     (auto simp: keep_variant_def hasOption_plain conforming_def stockValid_def prop_of_def
        plain_variant_def dest: ge_not_NaN)

lemma filter_variants_plain:
  "list_all plain_variant vs \<Longrightarrow> filter_variants vs = Inr (filter conforming vs)"
  by (induction vs) (simp_all add: keep_variant_plain)

text \<open>
  Claim C9 says that for every raw variant sequence the non-conforming elements are dropped
  silently without failing the operation, and that a kept element has a non-negative
  numeric stock. In the code an element that is \<^verbatim>\<open>null\<close> raises a \<^verbatim>\<open>TypeError\<close>, which
  leaves the handler of create and makes patch answer with status 500, and so does an
  element whose colour is a number; and an element whose stock is \<^verbatim>\<open>null\<close> is kept,
  because \<^verbatim>\<open>Number(null)\<close> is 0.
\<close>

theorem variant_filter_raises:
  "create seller null_variant_body 9 400 shop
     = (Inl (Uncaught ''TypeError: cannot read properties of null''), shop)
   \<and> patch seller 1 [(''variants'', JArr [JNull])] shop
     = (Inl (StoreFailure ''Failed to update listing''), shop)
   \<and> filter_variants [JObj [(''color'', JNum (Fin 5)), (''stock'', JNum (Fin 1))]]
     = Inl ''TypeError: trim is not a function''
   \<and> filter_variants [JObj [(''color'', JStr ''red''), (''stock'', JNull)]]
     = Inr [JObj [(''color'', JStr ''red''), (''stock'', JNull)]]"
  by code_simp

text \<open>The same evaluation for the patch alone: the owner's patch whose variant list holds
  \<^verbatim>\<open>null\<close> is answered with status 500 and changes nothing.\<close>

theorem variant_filter_raises_witness:
  "patch seller 1 [(''variants'', JArr [JNull])] shop
     = (Inl (StoreFailure ''Failed to update listing''), shop)"
  by (rule variant_filter_raises[THEN conjunct2, THEN conjunct1])

section \<open>Claim C10: what the read paths return\<close>


















end
